theory Spec2Isabelle
  imports Complex_Main
begin

section \<open>Values of the feed\<close>

text \<open>
  The feed is a JSON document, parsed by \<^verbatim>\<open>response.json()\<close> into Python values:
  \<^verbatim>\<open>None\<close>, booleans, numbers, strings, lists and dicts. A number, whether Python reads it
  as \<^verbatim>\<open>int\<close> or as \<^verbatim>\<open>float\<close>, is taken by its value, a real; the literals \<^verbatim>\<open>NaN\<close> and
  \<^verbatim>\<open>Infinity\<close>, which are not JSON, are left out. A dict is the list of its items in order,
  looked up from the front; a character of a string stands for one code point.
\<close>

datatype json =
    JNull
  | JBool bool
  | JNum real
  | JStr string
  | JArr "json list"
  | JObj "(string \<times> json) list"

text \<open>The exceptions the program can meet; all of them are subclasses of \<^verbatim>\<open>Exception\<close>.\<close>

datatype error =
    ConnectionError
  | Timeout
  | JSONDecodeError
  | KeyError
  | TypeError
  | IndexError
  | ValueError
  | OutOfBoundsDatetime
  | AttributeError
  | OverflowError

text \<open>\<^verbatim>\<open>v[k]\<close> with a string key: only a dict can be subscripted by a string.\<close>

fun getitem :: "json \<Rightarrow> string \<Rightarrow> error + json" where
  "getitem (JObj kvs) k = (case map_of kvs k of None \<Rightarrow> Inl KeyError | Some v \<Rightarrow> Inr v)"
| "getitem _ k = Inl TypeError"

text \<open>
  \<^verbatim>\<open>v[i]\<close> with the integer literals \<^verbatim>\<open>0\<close> and \<^verbatim>\<open>1\<close> of the source: a list and a string are
  indexed by position and raise \<^verbatim>\<open>IndexError\<close> out of range, a dict has no integer key
  (the keys of a JSON object are strings), nothing else can be subscripted.
\<close>

fun getitem_int :: "json \<Rightarrow> nat \<Rightarrow> error + json" where
  "getitem_int (JArr xs) i = (if i < length xs then Inr (xs ! i) else Inl IndexError)"
| "getitem_int (JStr s) i = (if i < length s then Inr (JStr [s ! i]) else Inl IndexError)"
| "getitem_int (JObj kvs) i = Inl KeyError"
| "getitem_int _ i = Inl TypeError"

text \<open>
  \<^verbatim>\<open>for item in v\<close>: a list yields its elements, a dict its keys, a string its characters;
  nothing else is iterable.
\<close>

fun iterate :: "json \<Rightarrow> error + json list" where
  "iterate (JArr xs) = Inr xs"
| "iterate (JObj kvs) = Inr (map (\<lambda>kv. JStr (fst kv)) kvs)"
| "iterate (JStr s) = Inr (map (\<lambda>c. JStr [c]) s)"
| "iterate _ = Inl TypeError"

text \<open>
  The numeric value of an operand of \<^verbatim>\<open>-\<close> and \<^verbatim>\<open>>=\<close>: a number is itself, \<^verbatim>\<open>True\<close> and
  \<^verbatim>\<open>False\<close> are 1 and 0, anything else is no number (\<^verbatim>\<open>TypeError\<close> at the use).
\<close>

fun num_of :: "json \<Rightarrow> real option" where
  "num_of (JNum x) = Some x"
| "num_of (JBool b) = Some (if b then 1 else 0)"
| "num_of _ = None"

text \<open>Sequencing of statements that can raise: the first exception ends the sequence.\<close>

definition bind_err :: "error + 'a \<Rightarrow> ('a \<Rightarrow> error + 'b) \<Rightarrow> error + 'b" where
  "bind_err m f = (case m of Inl e \<Rightarrow> Inl e | Inr x \<Rightarrow> f x)"


section \<open>Floats\<close>

text \<open>
  The result of an operation on Python floats: a finite value, an infinity or NaN. What
  binary64 arithmetic makes of line 30 is not computed in this theory; it is a parameter,
  see \<open>library\<close> below.
\<close>

datatype pyfloat = Float real | PosInf | NegInf | NaN


section \<open>Timestamps\<close>

text \<open>
  A pandas \<^verbatim>\<open>Timestamp\<close>, by its calendar fields (proleptic Gregorian calendar, no time
  zone) as pandas derives them from the count of nanoseconds since 1970-01-01 00:00.
\<close>

record timestamp =
  year :: int
  month :: int
  day :: int
  hour :: int
  minute :: int
  second :: int
  nanosecond :: int

definition is_leapyear :: "int \<Rightarrow> bool" where
  "is_leapyear y \<longleftrightarrow> y mod 4 = 0 \<and> (y mod 100 \<noteq> 0 \<or> y mod 400 = 0)"

text \<open>
  The year and the day within the year of a day count since 1970-01-01, by cycles of 400,
  100, 4 and 1 years counted from the year 2000. Division and remainder round down, so one
  equation covers the day counts before 2000 as well.
\<close>

definition days_to_yearsdays :: "int \<Rightarrow> int \<times> int" where
  "days_to_yearsdays days0 =
    (let d = days0 - (365 * 30 + 7);
         y = 400 * (d div 146097);
         d = d mod 146097
     in if d \<ge> 366 then
          (let y = y + 100 * ((d - 1) div 36524);
               d = (d - 1) mod 36524
           in if d \<ge> 365 then
                (let y = y + 4 * ((d + 1) div 1461);
                     d = (d + 1) mod 1461
                 in if d \<ge> 366 then (y + (d - 1) div 365 + 2000, (d - 1) mod 365)
                    else (y + 2000, d))
              else (y + 2000, d))
        else (y + 2000, d))"

definition days_per_month_table :: "bool \<Rightarrow> int list" where
  "days_per_month_table leap =
     [31, if leap then 29 else 28, 31, 30, 31, 30, 31, 31, 30, 31, 30, 31]"

text \<open>
  The walk through the month lengths: \<open>i\<close> months are behind, \<open>d\<close> days are left. It ends
  within the table whenever \<open>d\<close> is a day of the year (lemma \<open>month_and_day_range\<close>).
\<close>

fun month_and_day :: "int list \<Rightarrow> int \<Rightarrow> int \<Rightarrow> int \<times> int" where
  "month_and_day [] i d = (i + 1, d + 1)"
| "month_and_day (l # ls) i d =
     (if d < l then (i + 1, d + 1) else month_and_day ls (i + 1) (d - l))"

definition timestamp_of_ns :: "int \<Rightarrow> timestamp" where
  "timestamp_of_ns n =
    (let days = n div 86400000000000;
         t = n mod 86400000000000;
         (y, doy) = days_to_yearsdays days;
         (m, d) = month_and_day (days_per_month_table (is_leapyear y)) 0 doy
     in \<lparr> year = y, month = m, day = d,
          hour = t div 3600000000000,
          minute = t div 60000000000 mod 60,
          second = t div 1000000000 mod 60,
          nanosecond = t mod 1000000000 \<rparr>)"

definition digit_char :: "int \<Rightarrow> char" where
  "digit_char d = ''0123456789'' ! nat (d mod 10)"

definition pad2 :: "int \<Rightarrow> string" where
  "pad2 n = [digit_char (n div 10), digit_char n]"

definition pad4 :: "int \<Rightarrow> string" where
  "pad4 n = [digit_char (n div 1000), digit_char (n div 100), digit_char (n div 10), digit_char n]"

text \<open>
  \<^verbatim>\<open>.strftime('%Y-%m-%d %H:%M')\<close> on a timestamp whose year has four digits.
\<close>

definition format_minute :: "timestamp \<Rightarrow> string" where
  "format_minute ts =
     pad4 (year ts) @ ''-'' @ pad2 (month ts) @ ''-'' @ pad2 (day ts) @ '' '' @
     pad2 (hour ts) @ '':'' @ pad2 (minute ts)"

text \<open>The reading of a string of the pattern \<^verbatim>\<open>YYYY-MM-DD HH:MM\<close>, with the checks of a date.\<close>

definition digit_val :: "char \<Rightarrow> int option" where
  "digit_val c =
     (let n = of_char c :: int in if 48 \<le> n \<and> n \<le> 57 then Some (n - 48) else None)"

fun number :: "string \<Rightarrow> int \<Rightarrow> int option" where
  "number [] acc = Some acc"
| "number (c # cs) acc =
     (case digit_val c of None \<Rightarrow> None | Some d \<Rightarrow> number cs (10 * acc + d))"

definition parse_minute :: "string \<Rightarrow> error + timestamp" where
  "parse_minute s =
     (if length s = 16 \<and> s ! 4 = CHR ''-'' \<and> s ! 7 = CHR ''-'' \<and> s ! 10 = CHR '' '' \<and>
         s ! 13 = CHR '':''
      then (case (number (take 4 s) 0, number (take 2 (drop 5 s)) 0,
                  number (take 2 (drop 8 s)) 0, number (take 2 (drop 11 s)) 0,
                  number (take 2 (drop 14 s)) 0) of
              (Some y, Some m, Some d, Some h, Some mi) \<Rightarrow>
                if 1 \<le> m \<and> m \<le> 12 \<and> 1 \<le> d \<and>
                   d \<le> days_per_month_table (is_leapyear y) ! nat (m - 1) \<and>
                   h < 24 \<and> mi < 60
                then Inr \<lparr> year = y, month = m, day = d, hour = h, minute = mi,
                           second = 0, nanosecond = 0 \<rparr>
                else Inl ValueError
            | _ \<Rightarrow> Inl ValueError)
      else Inl ValueError)"


section \<open>Cells and the libraries\<close>

text \<open>
  A cell of a data frame holds a Python value: one of the values of the feed (a string of
  the program is \<open>JStr\<close>, a number of the feed is \<open>JNum\<close>), a float that the program has
  computed, a \<^verbatim>\<open>Timestamp\<close>, or \<^verbatim>\<open>NaT\<close>.
\<close>

datatype cell = Val json | Flt pyfloat | Ts timestamp | NaT

text \<open>
  The program leaves much to its libraries, and this theory computes their answers only
  where they are beyond doubt. Everywhere else the answer is a parameter: a \<open>library\<close>
  gives, for each such use, the result or the exception. Every statement below that has a
  \<open>lib\<close> holds for each library, so for the one the program runs with.

  \<^item> \<open>float_radius x\<close>: what binary64 arithmetic makes of line 30,
    \<^verbatim>\<open>20000 * (1.5 ** (mag - 4))\<close>, for a magnitude of value \<open>x\<close>: a float rounded at each
    step, an infinity, or \<^verbatim>\<open>OverflowError\<close> from the power.
  \<^item> \<open>time_string_other t\<close>: what line 28,
    \<^verbatim>\<open>pd.to_datetime(t, unit='ms').strftime('%Y-%m-%d %H:%M')\<close>, gives when \<open>t\<close> is not a
    whole number of milliseconds in the range of a nanosecond timestamp: a fraction is
    rounded, a string or a list may be converted, \<^verbatim>\<open>None\<close> and a time out of bounds raise,
    as the version of pandas has it.
  \<^item> \<open>to_datetime_other s\<close>: what \<^verbatim>\<open>pd.to_datetime(s)\<close> of line 106 gives for a column \<open>s\<close>
    that is empty or not made of strings of the pattern \<^verbatim>\<open>YYYY-MM-DD HH:MM\<close> alone.
  \<^item> \<open>dt_hour_other s\<close>: what \<^verbatim>\<open>s.dt.hour\<close> gives for a column that is empty or not made
    of timestamps alone.
  \<^item> \<open>value_counts_other s\<close>: what \<^verbatim>\<open>s.value_counts().sort_index()\<close> gives for a column that
    is empty or not made of numbers alone.
  \<^item> \<open>max_other s\<close>: what \<^verbatim>\<open>s.max()\<close> gives for a column that is empty or not made of
    numbers alone.
\<close>

record library =
  float_radius :: "real \<Rightarrow> error + pyfloat"
  time_string_other :: "json \<Rightarrow> error + string"
  to_datetime_other :: "cell list \<Rightarrow> error + cell list"
  dt_hour_other :: "cell list \<Rightarrow> error + cell list"
  value_counts_other :: "cell list \<Rightarrow> error + (cell \<times> nat) list"
  max_other :: "cell list \<Rightarrow> error + cell"


section \<open>The normalizer\<close>

text \<open>The dict built at lines 23 to 31 of \<^verbatim>\<open>earthquake_app.py\<close>, one per kept feature.\<close>

record event =
  lat :: json
  lon :: json
  mag :: json
  place :: json
  time :: string
  radius :: pyfloat

text \<open>
  Line 28 for a whole number \<open>x\<close> of milliseconds whose nanoseconds fit 64 bits: the
  timestamp is that instant, between 1677 and 2262, and \<^verbatim>\<open>strftime\<close> writes its minute. For
  every other value the library answers.
\<close>

definition whole_ms :: "real \<Rightarrow> bool" where
  "whole_ms x \<longleftrightarrow> of_int \<lfloor>x\<rfloor> = x \<and> - 9223372036854775807 \<le> \<lfloor>x\<rfloor> * 1000000 \<and>
                \<lfloor>x\<rfloor> * 1000000 \<le> 9223372036854775807"

fun time_string :: "library \<Rightarrow> json \<Rightarrow> error + string" where
  "time_string lib (JNum x) =
     (if whole_ms x then Inr (format_minute (timestamp_of_ns (\<lfloor>x\<rfloor> * 1000000)))
      else time_string_other lib (JNum x))"
| "time_string lib t = time_string_other lib t"

text \<open>
  Line 30: \<^verbatim>\<open>20000 * (1.5 ** (mag - 4))\<close>. The subtraction raises \<^verbatim>\<open>TypeError\<close> on a value that
  is no number; on a number the floats are the library's.
\<close>

definition visual_radius :: "library \<Rightarrow> json \<Rightarrow> error + pyfloat" where
  "visual_radius lib m =
     (case num_of m of None \<Rightarrow> Inl TypeError | Some x \<Rightarrow> float_radius lib x)"

text \<open>Line 20: \<^verbatim>\<open>mag = item['properties']['mag']\<close>.\<close>

definition item_mag :: "json \<Rightarrow> error + json" where
  "item_mag item = bind_err (getitem item ''properties'') (\<lambda>props. getitem props ''mag'')"

text \<open>
  The body of the loop, lines 20 to 31, for one item: \<open>None\<close> when the item is skipped.
  The entries of the dict are evaluated in the order they are written.
\<close>

definition parse_feature :: "library \<Rightarrow> json \<Rightarrow> error + event option" where
  "parse_feature lib item =
     bind_err (item_mag item) (\<lambda>m.
     if m = JNull then Inr None
     else
       bind_err (getitem item ''geometry'') (\<lambda>g1.
       bind_err (getitem g1 ''coordinates'') (\<lambda>c1.
       bind_err (getitem_int c1 1) (\<lambda>la.
       bind_err (getitem item ''geometry'') (\<lambda>g0.
       bind_err (getitem g0 ''coordinates'') (\<lambda>c0.
       bind_err (getitem_int c0 0) (\<lambda>lo.
       bind_err (getitem item ''properties'') (\<lambda>p1.
       bind_err (getitem p1 ''place'') (\<lambda>pl.
       bind_err (getitem item ''properties'') (\<lambda>p2.
       bind_err (getitem p2 ''time'') (\<lambda>t.
       bind_err (time_string lib t) (\<lambda>s.
       bind_err (visual_radius lib m) (\<lambda>r.
       Inr (Some \<lparr> lat = la, lon = lo, mag = m, place = pl, time = s, radius = r \<rparr>
       ))))))))))))))"

text \<open>The loop of lines 19 to 31 over the items, \<open>parsed_data\<close> being the list built so far.\<close>

fun parse_features :: "library \<Rightarrow> json list \<Rightarrow> event list \<Rightarrow> error + event list" where
  "parse_features lib [] parsed_data = Inr parsed_data"
| "parse_features lib (item # items) parsed_data =
     (case parse_feature lib item of
        Inl e \<Rightarrow> Inl e
      | Inr None \<Rightarrow> parse_features lib items parsed_data
      | Inr (Some ev) \<Rightarrow> parse_features lib items (parsed_data @ [ev]))"

text \<open>
  What \<^verbatim>\<open>requests.get(url, timeout=10)\<close> can do: raise for a failed connection, raise
  for a timeout, or return a response with a status code and a body. The body is given by
  what \<^verbatim>\<open>response.json()\<close> makes of it: \<open>None\<close> when it is not JSON.
\<close>

datatype http_result =
    ConnectionFailed
  | TimedOut
  | Response nat "json option"

text \<open>The body of the \<^verbatim>\<open>try\<close>, lines 14 to 31, up to the list \<open>parsed_data\<close>.\<close>

definition fetch_and_parse :: "library \<Rightarrow> http_result \<Rightarrow> error + event list" where
  "fetch_and_parse lib r =
     (case r of
        ConnectionFailed \<Rightarrow> Inl ConnectionError
      | TimedOut \<Rightarrow> Inl Timeout
      | Response status body \<Rightarrow>
          (case body of
             None \<Rightarrow> Inl JSONDecodeError
           | Some json_data \<Rightarrow>
               bind_err (getitem json_data ''features'') (\<lambda>features.
               bind_err (iterate features) (\<lambda>items.
               parse_features lib items []))))"


section \<open>Data frames\<close>

text \<open>
  A data frame is its column names, its row labels and its rows, each row with one cell
  for each column, in the order of the columns.
\<close>

record dataframe =
  columns :: "string list"
  index :: "nat list"
  data :: "cell list list"

definition row_of :: "event \<Rightarrow> cell list" where
  "row_of ev = [Val (lat ev), Val (lon ev), Val (mag ev), Val (place ev),
                Val (JStr (time ev)), Flt (radius ev)]"

text \<open>
  \<^verbatim>\<open>pd.DataFrame(parsed_data)\<close> on a list of dicts with the same six keys: the keys become
  the columns and the rows are numbered from 0. From the empty list, as from no argument
  at all (\<^verbatim>\<open>pd.DataFrame()\<close>, line 35), the frame has no rows and no columns.
\<close>

definition DataFrame :: "event list \<Rightarrow> dataframe" where
  "DataFrame parsed_data =
     \<lparr> columns = (if parsed_data = [] then []
                  else [''lat'', ''lon'', ''mag'', ''place'', ''time'', ''radius'']),
       index = [0 ..< length parsed_data],
       data = map row_of parsed_data \<rparr>"

fun position :: "'a list \<Rightarrow> 'a \<Rightarrow> nat option" where
  "position [] x = None"
| "position (y # ys) x = (if x = y then Some 0 else map_option Suc (position ys x))"

text \<open>\<^verbatim>\<open>df[name]\<close>: the cells of a column, \<^verbatim>\<open>KeyError\<close> when there is no such column.\<close>

definition column :: "dataframe \<Rightarrow> string \<Rightarrow> error + cell list" where
  "column df name =
     (case position (columns df) name of
        None \<Rightarrow> Inl KeyError
      | Some j \<Rightarrow> Inr (map (\<lambda>row. row ! j) (data df)))"

text \<open>
  One comparison of \<^verbatim>\<open>series >= min_mag\<close>: numbers compare by value, a missing value and
  NaN compare false, other values cannot be compared with a number.
\<close>

fun ge_cell :: "cell \<Rightarrow> real \<Rightarrow> error + bool" where
  "ge_cell (Val v) t =
     (case num_of v of
        Some x \<Rightarrow> Inr (x \<ge> t)
      | None \<Rightarrow> if v = JNull then Inr False else Inl TypeError)"
| "ge_cell (Flt (Float x)) t = Inr (x \<ge> t)"
| "ge_cell (Flt PosInf) t = Inr True"
| "ge_cell (Flt NegInf) t = Inr False"
| "ge_cell (Flt NaN) t = Inr False"
| "ge_cell (Ts ts) t = Inl TypeError"
| "ge_cell NaT t = Inl TypeError"

fun sequence_err :: "(error + 'a) list \<Rightarrow> error + 'a list" where
  "sequence_err [] = Inr []"
| "sequence_err (m # ms) =
     bind_err m (\<lambda>x. bind_err (sequence_err ms) (\<lambda>xs. Inr (x # xs)))"

definition series_ge :: "cell list \<Rightarrow> real \<Rightarrow> error + bool list" where
  "series_ge s t = sequence_err (map (\<lambda>c. ge_cell c t) s)"

text \<open>
  \<^verbatim>\<open>df[mask]\<close> with a boolean mask: a new frame of the rows where the mask is true, with
  their labels and the same columns.
\<close>

definition getitem_mask :: "dataframe \<Rightarrow> bool list \<Rightarrow> dataframe" where
  "getitem_mask df keep =
     \<lparr> columns = columns df,
       index = map snd (filter fst (zip keep (index df))),
       data = map snd (filter fst (zip keep (data df))) \<rparr>"

text \<open>Line 54: \<^verbatim>\<open>filtered_df = df[df['mag'] >= min_mag]\<close>, the value of the right-hand side.\<close>

definition filtered_df :: "dataframe \<Rightarrow> real \<Rightarrow> error + dataframe" where
  "filtered_df df min_mag =
     bind_err (column df ''mag'') (\<lambda>s.
     bind_err (series_ge s min_mag) (\<lambda>keep.
     Inr (getitem_mask df keep)))"

text \<open>\<^verbatim>\<open>df.empty\<close>: an axis of length 0.\<close>

definition empty :: "dataframe \<Rightarrow> bool" where
  "empty df \<longleftrightarrow> columns df = [] \<or> data df = []"

text \<open>
  \<^verbatim>\<open>df[name] = values\<close>: the column is replaced, or added at the end when it is new; the
  values must be as many as the rows. The frame is changed in place: the result is its
  new content.
\<close>

definition setitem :: "dataframe \<Rightarrow> string \<Rightarrow> cell list \<Rightarrow> error + dataframe" where
  "setitem df name vals =
     (if length vals \<noteq> length (data df) then Inl ValueError
      else Inr (case position (columns df) name of
                  None \<Rightarrow> df \<lparr> columns := columns df @ [name],
                               data := map (\<lambda>(row, v). row @ [v]) (zip (data df) vals) \<rparr>
                | Some j \<Rightarrow> df \<lparr> data := map (\<lambda>(row, v). row[j := v]) (zip (data df) vals) \<rparr>))"

text \<open>\<^verbatim>\<open>df[[name, ...]]\<close>: a new frame of the named columns, in the order they are named.\<close>

definition getitem_columns :: "dataframe \<Rightarrow> string list \<Rightarrow> error + dataframe" where
  "getitem_columns df names =
     bind_err (sequence_err (map (\<lambda>n. case position (columns df) n of
                                          None \<Rightarrow> Inl KeyError | Some j \<Rightarrow> Inr j) names)) (\<lambda>js.
     Inr \<lparr> columns = names, index = index df,
           data = map (\<lambda>row. map (\<lambda>j. row ! j) js) (data df) \<rparr>)"


section \<open>Series of numbers, of strings and of timestamps\<close>

text \<open>The number in a cell of the feed, when there is one; booleans are not taken here.\<close>

fun number_cell :: "cell \<Rightarrow> real option" where
  "number_cell (Val (JNum x)) = Some x"
| "number_cell c = None"

text \<open>
  \<^verbatim>\<open>series.max()\<close> of a series of numbers that is not empty: the greatest. For another
  series the library answers.
\<close>

definition series_max :: "library \<Rightarrow> cell list \<Rightarrow> error + cell" where
  "series_max lib s =
     (if s \<noteq> [] \<and> (\<forall>c \<in> set s. number_cell c \<noteq> None)
      then Inr (Val (JNum (Max (set (map (\<lambda>c. the (number_cell c)) s)))))
      else max_other lib s)"

text \<open>
  A string that \<^verbatim>\<open>pd.to_datetime\<close> reads the same in every version: the pattern
  \<^verbatim>\<open>YYYY-MM-DD HH:MM\<close> with a date of the years 1678 to 2261, which every resolution of
  a timestamp holds.
\<close>

definition minute_string :: "cell \<Rightarrow> bool" where
  "minute_string c =
     (case c of
        Val (JStr s) \<Rightarrow>
          (case parse_minute s of
             Inr ts \<Rightarrow> 1678 \<le> year ts \<and> year ts \<le> 2261
           | Inl e \<Rightarrow> False)
      | _ \<Rightarrow> False)"

definition read_minute :: "cell \<Rightarrow> cell" where
  "read_minute c =
     (case c of
        Val (JStr s) \<Rightarrow> (case parse_minute s of Inr ts \<Rightarrow> Ts ts | Inl e \<Rightarrow> NaT)
      | _ \<Rightarrow> NaT)"

text \<open>
  \<^verbatim>\<open>pd.to_datetime(series)\<close> on a column of such strings that is not empty: their
  timestamps. For another column the library answers.
\<close>

definition to_datetime :: "library \<Rightarrow> cell list \<Rightarrow> error + cell list" where
  "to_datetime lib s =
     (if s \<noteq> [] \<and> (\<forall>c \<in> set s. minute_string c) then Inr (map read_minute s)
      else to_datetime_other lib s)"

text \<open>
  \<^verbatim>\<open>series.dt.hour\<close> on a column of timestamps that is not empty: their hours. For another
  column the library answers.
\<close>

fun is_timestamp :: "cell \<Rightarrow> bool" where
  "is_timestamp (Ts ts) = True"
| "is_timestamp c = False"

fun hour_cell :: "cell \<Rightarrow> cell" where
  "hour_cell (Ts ts) = Val (JNum (of_int (hour ts)))"
| "hour_cell c = Flt NaN"

definition dt_hour :: "library \<Rightarrow> cell list \<Rightarrow> error + cell list" where
  "dt_hour lib s =
     (if s \<noteq> [] \<and> (\<forall>c \<in> set s. is_timestamp c) then Inr (map hour_cell s)
      else dt_hour_other lib s)"

text \<open>
  \<^verbatim>\<open>series.value_counts()\<close> on a series of numbers: each distinct value with the number of
  its occurrences, the most frequent first. \<^verbatim>\<open>.sort_index()\<close> then orders the entries by
  their value, so the order among equally frequent values does not show in the result.
\<close>

definition value_counts :: "cell list \<Rightarrow> (cell \<times> nat) list" where
  "value_counts s =
     sort_key (\<lambda>p. - int (snd p)) (map (\<lambda>v. (v, count_list s v)) (remdups s))"

definition sort_index :: "(cell \<times> nat) list \<Rightarrow> (cell \<times> nat) list" where
  "sort_index s = sort_key (\<lambda>p. the (number_cell (fst p))) s"

text \<open>
  Line 113 on the column \<^verbatim>\<open>hour\<close>: \<^verbatim>\<open>value_counts().sort_index()\<close>. For a column that is
  empty or not made of numbers alone the library answers.
\<close>

definition counts_by_value :: "library \<Rightarrow> cell list \<Rightarrow> error + (cell \<times> nat) list" where
  "counts_by_value lib s =
     (if s \<noteq> [] \<and> (\<forall>c \<in> set s. number_cell c \<noteq> None)
      then Inr (sort_index (value_counts s))
      else value_counts_other lib s)"


section \<open>The script\<close>

text \<open>
  The elements of the page that show the data or depend on them, in the order they are
  written. Headers, captions and the sidebar are the same in every run and are left out.
\<close>

datatype widget =
    StError error
  | StTitle real
  | StMetrics nat cell real
  | StPydeckChart dataframe
  | StWarning
  | StDataframe dataframe
  | StBarChart "(cell \<times> nat) list"
  | StInfo

text \<open>
  Lines 11 to 35. The \<^verbatim>\<open>except Exception\<close> clause takes every exception of the body, shows
  the error and returns an empty frame.
\<close>

definition get_earthquake_data :: "library \<Rightarrow> http_result \<Rightarrow> widget list \<times> dataframe" where
  "get_earthquake_data lib r =
     (case fetch_and_parse lib r of
        Inr parsed_data \<Rightarrow> ([], DataFrame parsed_data)
      | Inl e \<Rightarrow> ([StError e], DataFrame []))"

text \<open>
  Line 51 calls the function through \<^verbatim>\<open>st.cache_data\<close>, which hands out the frame that
  the function returned, or a copy of it: the frame of \<^verbatim>\<open>df\<close> is that frame.

  The frames of a run live in a store, and a variable of the script holds the address of
  its frame: \<open>df_ref\<close> for \<^verbatim>\<open>df\<close>, \<open>filtered_df_ref\<close> for \<^verbatim>\<open>filtered_df\<close>. A frame made
  by an expression is put at the next free address; an assignment to a column changes the
  frame at its address.
\<close>

record session =
  heap :: "dataframe list"
  page :: "widget list"

definition df_ref :: nat where
  "df_ref = 0"

definition filtered_df_ref :: nat where
  "filtered_df_ref = 1"

definition line_51 :: "library \<Rightarrow> http_result \<Rightarrow> session" where
  "line_51 lib r =
     (case get_earthquake_data lib r of (shown, d) \<Rightarrow> \<lparr> heap = [d], page = shown \<rparr>)"

definition line_54 :: "real \<Rightarrow> session \<Rightarrow> error + session" where
  "line_54 min_mag s =
     bind_err (filtered_df (heap s ! df_ref) min_mag) (\<lambda>f.
     Inr (s \<lparr> heap := heap s @ [f] \<rparr>))"

text \<open>Lines 57 to 63: the title and the three metrics.\<close>

definition lines_57_63 :: "library \<Rightarrow> real \<Rightarrow> session \<Rightarrow> error + session" where
  "lines_57_63 lib min_mag s =
     (let f = heap s ! filtered_df_ref
      in bind_err (if \<not> empty f then bind_err (column f ''mag'') (series_max lib)
                   else Inr (Val (JNum 0))) (\<lambda>mx.
         Inr (s \<lparr> page := page s @ [StTitle min_mag,
                                     StMetrics (length (data f)) mx min_mag] \<rparr>)))"

text \<open>Lines 68 to 91, the map, and line 93, the warning when nothing passes the threshold.\<close>

definition lines_68_91 :: "session \<Rightarrow> error + session" where
  "lines_68_91 s = Inr (s \<lparr> page := page s @ [StPydeckChart (heap s ! filtered_df_ref)] \<rparr>)"

definition line_93 :: "session \<Rightarrow> error + session" where
  "line_93 s = Inr (s \<lparr> page := page s @ [StWarning] \<rparr>)"

text \<open>Lines 96 to 97: the table, a new frame of five columns.\<close>

definition lines_96_97 :: "session \<Rightarrow> error + session" where
  "lines_96_97 s =
     bind_err (getitem_columns (heap s ! filtered_df_ref)
                 [''time'', ''place'', ''mag'', ''lat'', ''lon'']) (\<lambda>t.
     Inr (s \<lparr> heap := heap s @ [t], page := page s @ [StDataframe t] \<rparr>))"

text \<open>
  Line 106: \<^verbatim>\<open>filtered_df['datetime'] = pd.to_datetime(filtered_df['time'])\<close>, first as
  the new content of the frame, then as the statement that writes it to the store.
\<close>

definition with_datetime :: "library \<Rightarrow> dataframe \<Rightarrow> error + dataframe" where
  "with_datetime lib f =
     bind_err (column f ''time'') (\<lambda>c.
     bind_err (to_datetime lib c) (\<lambda>v.
     setitem f ''datetime'' v))"

definition line_106 :: "library \<Rightarrow> session \<Rightarrow> error + session" where
  "line_106 lib s =
     bind_err (with_datetime lib (heap s ! filtered_df_ref)) (\<lambda>f.
     Inr (s \<lparr> heap := (heap s)[filtered_df_ref := f] \<rparr>))"

text \<open>Line 110: \<^verbatim>\<open>filtered_df['hour'] = filtered_df['datetime'].dt.hour\<close>, in the same way.\<close>

definition with_hour :: "library \<Rightarrow> dataframe \<Rightarrow> error + dataframe" where
  "with_hour lib f =
     bind_err (column f ''datetime'') (\<lambda>c.
     bind_err (dt_hour lib c) (\<lambda>v.
     setitem f ''hour'' v))"

definition line_110 :: "library \<Rightarrow> session \<Rightarrow> error + session" where
  "line_110 lib s =
     bind_err (with_hour lib (heap s ! filtered_df_ref)) (\<lambda>f.
     Inr (s \<lparr> heap := (heap s)[filtered_df_ref := f] \<rparr>))"

text \<open>Line 113: \<^verbatim>\<open>hourly_counts = filtered_df['hour'].value_counts().sort_index()\<close>.\<close>

definition hourly_counts :: "library \<Rightarrow> dataframe \<Rightarrow> error + (cell \<times> nat) list" where
  "hourly_counts lib f = bind_err (column f ''hour'') (counts_by_value lib)"

text \<open>Lines 113 to 116: the counts and their bar chart. Line 120: the note without data.\<close>

definition lines_113_116 :: "library \<Rightarrow> session \<Rightarrow> error + session" where
  "lines_113_116 lib s =
     bind_err (hourly_counts lib (heap s ! filtered_df_ref)) (\<lambda>hc.
     Inr (s \<lparr> page := page s @ [StBarChart hc] \<rparr>))"

definition line_120 :: "session \<Rightarrow> error + session" where
  "line_120 s = Inr (s \<lparr> page := page s @ [StInfo] \<rparr>)"

text \<open>
  The statements of the script: a simple statement changes the session or raises, an
  \<^verbatim>\<open>if\<close> runs one of two blocks. A run gives the sessions reached, one after each simple
  statement that ended, and the exception that ended the run, if one did: the script
  handles none.
\<close>

datatype stmt =
    Stmt "session \<Rightarrow> error + session"
  | IfElse "session \<Rightarrow> bool" "stmt list" "stmt list"

fun exec :: "stmt \<Rightarrow> session \<Rightarrow> session list \<times> error option"
  and execs :: "stmt list \<Rightarrow> session \<Rightarrow> session list \<times> error option" where
  "exec (Stmt f) s = (case f s of Inl e \<Rightarrow> ([], Some e) | Inr s' \<Rightarrow> ([s'], None))"
| "exec (IfElse c a b) s = (if c s then execs a s else execs b s)"
| "execs [] s = ([], None)"
| "execs (x # xs) s =
     (case exec x s of
        (tr, Some e) \<Rightarrow> (tr, Some e)
      | (tr, None) \<Rightarrow> (case execs xs (last (s # tr)) of (tr', res) \<Rightarrow> (tr @ tr', res)))"

definition not_empty :: "session \<Rightarrow> bool" where
  "not_empty s \<longleftrightarrow> \<not> empty (heap s ! filtered_df_ref)"

text \<open>Lines 66 to 93: the map, or the warning.\<close>

definition lines_66_93 :: stmt where
  "lines_66_93 = IfElse not_empty [Stmt lines_68_91] [Stmt line_93]"

text \<open>Lines 105 to 120: the histogram of the hours, or the note.\<close>

definition lines_105_120 :: "library \<Rightarrow> stmt" where
  "lines_105_120 lib =
     IfElse not_empty
       [Stmt (line_106 lib), Stmt (line_110 lib), Stmt (lines_113_116 lib)]
       [Stmt line_120]"

text \<open>Lines 54 to 120, after \<^verbatim>\<open>df = get_earthquake_data()\<close> of line 51.\<close>

definition program :: "library \<Rightarrow> real \<Rightarrow> stmt list" where
  "program lib min_mag =
     [Stmt (line_54 min_mag),
      Stmt (lines_57_63 lib min_mag),
      lines_66_93,
      Stmt lines_96_97,
      lines_105_120 lib]"

definition script :: "library \<Rightarrow> http_result \<Rightarrow> real \<Rightarrow> session list \<times> error option" where
  "script lib r min_mag =
     (case execs (program lib min_mag) (line_51 lib r) of
        (tr, res) \<Rightarrow> (line_51 lib r # tr, res))"

text \<open>
  A property of every simple statement of a block, used to carry an invariant of the
  session through a run.
\<close>

fun every_stmt :: "((session \<Rightarrow> error + session) \<Rightarrow> bool) \<Rightarrow> stmt \<Rightarrow> bool" where
  "every_stmt P (Stmt f) = P f"
| "every_stmt P (IfElse c a b) = ((\<forall>x \<in> set a. every_stmt P x) \<and> (\<forall>x \<in> set b. every_stmt P x))"


section \<open>The words of the specification, and examples\<close>

text \<open>
  The events that the filter is to keep, as the specification says it: those whose
  magnitude is greater than or equal to the threshold.
\<close>

definition magnitude_at_least :: "real \<Rightarrow> event \<Rightarrow> bool" where
  "magnitude_at_least t ev = (case num_of (mag ev) of Some m \<Rightarrow> t \<le> m | None \<Rightarrow> False)"

text \<open>
  A library for the examples below. Its floats are the three that the examples need, and
  they are what binary64 gives: at magnitude 4, \<^verbatim>\<open>1.5 ** 0\<close> is 1 and the radius 20000; at
  magnitude 5, \<^verbatim>\<open>1.5 ** 1\<close> is 1.5 and the radius 30000; at magnitude 6, \<^verbatim>\<open>1.5 ** 2\<close> is
  2.25 and the radius 45000, all without rounding. The examples ask this library nothing
  else, and it answers everything else with an exception.
\<close>

definition example_library :: library where
  "example_library =
     \<lparr> float_radius = (\<lambda>x. if x = 4 then Inr (Float 20000)
                            else if x = 5 then Inr (Float 30000)
                            else if x = 6 then Inr (Float 45000) else Inl OverflowError),
       time_string_other = (\<lambda>t. Inl ValueError),
       to_datetime_other = (\<lambda>s. Inl ValueError),
       dt_hour_other = (\<lambda>s. Inl AttributeError),
       value_counts_other = (\<lambda>s. Inl TypeError),
       max_other = (\<lambda>s. Inl TypeError) \<rparr>"

text \<open>
  A feed for the examples, of three features with the magnitudes 5, 4 and 5 and the times
  05:00, 00:00 and 01:00 of 1970-01-01, and the events that the normalizer makes of them.
\<close>

definition example_feed :: json where
  "example_feed = JObj [(''features'', JArr
     [JObj [(''properties'', JObj [(''mag'', JNum 5), (''place'', JStr ''A''),
                                   (''time'', JNum 18000000)]),
            (''geometry'', JObj [(''coordinates'', JArr [JNum 10, JNum 20])])],
      JObj [(''properties'', JObj [(''mag'', JNum 4), (''place'', JStr ''B''),
                                   (''time'', JNum 0)]),
            (''geometry'', JObj [(''coordinates'', JArr [JNum 30, JNum 40])])],
      JObj [(''properties'', JObj [(''mag'', JNum 5), (''place'', JStr ''C''),
                                   (''time'', JNum 3600000)]),
            (''geometry'', JObj [(''coordinates'', JArr [JNum 50, JNum 60])])]])]"

definition example_events :: "event list" where
  "example_events =
     [\<lparr> lat = JNum 20, lon = JNum 10, mag = JNum 5, place = JStr ''A'',
         time = ''1970-01-01 05:00'', radius = Float 30000 \<rparr>,
      \<lparr> lat = JNum 40, lon = JNum 30, mag = JNum 4, place = JStr ''B'',
         time = ''1970-01-01 00:00'', radius = Float 20000 \<rparr>,
      \<lparr> lat = JNum 60, lon = JNum 50, mag = JNum 5, place = JStr ''C'',
         time = ''1970-01-01 01:00'', radius = Float 30000 \<rparr>]"

text \<open>
  The example library with one more answer: a number of milliseconds that is not whole is
  rounded to the nearest nanosecond before its minute is written, which is what pandas 2.3
  makes of a fraction.
\<close>

definition rounding_library :: library where
  "rounding_library =
     example_library \<lparr> time_string_other :=
       (\<lambda>t. case t of
              JNum x \<Rightarrow>
                if - 9223372036854775807 \<le> round (x * 1000000) \<and>
                   round (x * 1000000) \<le> 9223372036854775807
                then Inr (format_minute (timestamp_of_ns (round (x * 1000000))))
                else Inl ValueError
            | _ \<Rightarrow> Inl ValueError) \<rparr>"


section \<open>Exceptions in sequence\<close>

lemma bind_err_Inl [simp]: "bind_err (Inl e) f = Inl e"
  by (simp add: bind_err_def)

lemma bind_err_Inr [simp]: "bind_err (Inr x) f = f x"
  by (simp add: bind_err_def)

lemma bind_err_eq_Inr: "bind_err m f = Inr y \<longleftrightarrow> (\<exists>x. m = Inr x \<and> f x = Inr y)"
  by (cases m) simp_all

lemma bind_err_eq_Inl: "bind_err m f = Inl e \<longleftrightarrow> m = Inl e \<or> (\<exists>x. m = Inr x \<and> f x = Inl e)"
  by (cases m) simp_all

lemma parse_feature_skip: "parse_feature lib item = Inr None \<longleftrightarrow> item_mag item = Inr JNull"
  by (auto simp: parse_feature_def bind_err_eq_Inr split: if_splits)

lemma parse_feature_keptD:
  assumes "parse_feature lib item = Inr (Some ev)"
  shows "\<exists>g c props t.
        item_mag item = Inr (mag ev) \<and> mag ev \<noteq> JNull \<and>
        getitem item ''geometry'' = Inr g \<and> getitem g ''coordinates'' = Inr c \<and>
        getitem_int c 1 = Inr (lat ev) \<and> getitem_int c 0 = Inr (lon ev) \<and>
        getitem item ''properties'' = Inr props \<and>
        getitem props ''place'' = Inr (place ev) \<and>
        getitem props ''time'' = Inr t \<and> time_string lib t = Inr (time ev) \<and>
        visual_radius lib (mag ev) = Inr (radius ev)"
  using assms
  by (clarsimp simp: parse_feature_def bind_err_eq_Inr split: if_splits)

lemma parse_feature_keptI:
  assumes "item_mag item = Inr (mag ev)" "mag ev \<noteq> JNull"
    "getitem item ''geometry'' = Inr g" "getitem g ''coordinates'' = Inr c"
    "getitem_int c 1 = Inr (lat ev)" "getitem_int c 0 = Inr (lon ev)"
    "getitem item ''properties'' = Inr props"
    "getitem props ''place'' = Inr (place ev)"
    "getitem props ''time'' = Inr t" "time_string lib t = Inr (time ev)"
    "visual_radius lib (mag ev) = Inr (radius ev)"
  shows "parse_feature lib item = Inr (Some ev)"
  using assms by (cases ev) (simp add: parse_feature_def)

lemma parse_features_acc:
  "parse_features lib items acc =
     (case parse_features lib items [] of Inl e \<Rightarrow> Inl e | Inr evs \<Rightarrow> Inr (acc @ evs))"
proof (induction items arbitrary: acc)
  case Nil
  show ?case by simp
next
  case (Cons item items)
  show ?case
  proof (cases "parse_feature lib item")
    case (Inl e)
    then show ?thesis by simp
  next
    case (Inr r)
    show ?thesis
    proof (cases r)
      case None
      with Inr Cons.IH [of acc] show ?thesis by simp
    next
      case (Some ev)
      with Inr Cons.IH [of "acc @ [ev]"] Cons.IH [of "[ev]"] show ?thesis
        by (simp split: sum.splits)
    qed
  qed
qed


section \<open>The calendar\<close>

lemma is_leapyear_shift: "is_leapyear (400 * q + y) = is_leapyear y"
proof -
  have e4: "400 * q + y = y + 4 * (100 * q)" by simp
  have m4: "(400 * q + y) mod 4 = y mod 4" unfolding e4 by (rule mod_mult_self2)
  have e100: "400 * q + y = y + 100 * (4 * q)" by simp
  have m100: "(400 * q + y) mod 100 = y mod 100" unfolding e100 by (rule mod_mult_self2)
  have e400: "400 * q + y = y + 400 * q" by simp
  have m400: "(400 * q + y) mod 400 = y mod 400" unfolding e400 by (rule mod_mult_self2)
  show ?thesis unfolding is_leapyear_def m4 m100 m400 ..
qed

lemma leap_b: "1 \<le> c \<Longrightarrow> c \<le> 3 \<Longrightarrow> \<not> is_leapyear (100 * c + 2000)"
proof -
  assume "1 \<le> c" "c \<le> 3"
  then have "c = 1 \<or> c = 2 \<or> c = 3" by linarith
  then show ?thesis by (auto simp: is_leapyear_def)
qed

lemma leap_c: "0 \<le> c \<Longrightarrow> c \<le> 3 \<Longrightarrow> 1 \<le> f \<Longrightarrow> f \<le> 24 \<Longrightarrow> is_leapyear (100 * c + 4 * f + 2000)"
proof -
  assume a: "0 \<le> c" "c \<le> 3" "1 \<le> f" "f \<le> 24"
  have e4: "100 * c + 4 * f + 2000 = 4 * (25 * c + f + 500)" by simp
  have m4: "(100 * c + 4 * f + 2000) mod 4 = 0" unfolding e4 by simp
  have e100: "100 * c + 4 * f + 2000 = 4 * f + 100 * (c + 20)" by simp
  have "(100 * c + 4 * f + 2000) mod 100 = (4 * f) mod 100"
    unfolding e100 by (rule mod_mult_self2)
  also have "\<dots> = 4 * f" using a by simp
  finally have "(100 * c + 4 * f + 2000) mod 100 \<noteq> 0" using a by simp
  with m4 show ?thesis by (simp add: is_leapyear_def)
qed

lemma leap_d: "1 \<le> g \<Longrightarrow> g \<le> 3 \<Longrightarrow> \<not> is_leapyear (100 * c + 4 * f + g + 2000)"
proof -
  assume a: "1 \<le> g" "g \<le> 3"
  have e4: "100 * c + 4 * f + g + 2000 = g + 4 * (25 * c + f + 500)" by simp
  have "(100 * c + 4 * f + g + 2000) mod 4 = g mod 4"
    unfolding e4 by (rule mod_mult_self2)
  also have "\<dots> = g" using a by simp
  finally show ?thesis using a by (simp add: is_leapyear_def)
qed

lemma month_and_day_range:
  "0 \<le> d \<Longrightarrow> d < sum_list ls \<Longrightarrow> month_and_day ls i d = (m, dd) \<Longrightarrow>
   i < m \<and> m \<le> i + int (length ls) \<and> 1 \<le> dd \<and> dd \<le> ls ! nat (m - i - 1)"
proof (induction ls arbitrary: i d)
  case Nil
  then show ?case by simp
next
  case (Cons l ls)
  show ?case
  proof (cases "d < l")
    case True
    with Cons.prems show ?thesis by auto
  next
    case False
    with Cons.prems have step: "month_and_day ls (i + 1) (d - l) = (m, dd)"
      and "0 \<le> d - l" "d - l < sum_list ls" by auto
    from Cons.IH [OF this(2,3) step]
    have ih: "i + 1 < m" "m \<le> i + 1 + int (length ls)" "1 \<le> dd" "dd \<le> ls ! nat (m - (i + 1) - 1)"
      by auto
    have "nat (m - i - 1) = Suc (nat (m - (i + 1) - 1))" using ih(1) by linarith
    with ih show ?thesis by auto
  qed
qed

lemma days_to_yearsdays_range:
  assumes "days_to_yearsdays n = (y, d)"
  shows "0 \<le> d \<and> d < (if is_leapyear y then 366 else 365) \<and>
         400 * ((n - 10957) div 146097) + 2000 \<le> y \<and>
         y \<le> 400 * ((n - 10957) div 146097) + 2399"
proof -
  define q where "q = (n - (365 * 30 + 7)) div 146097"
  define D where "D = (n - (365 * 30 + 7)) mod 146097"
  define c where "c = (D - 1) div 36524"
  define D1 where "D1 = (D - 1) mod 36524"
  define f where "f = (D1 + 1) div 1461"
  define D2 where "D2 = (D1 + 1) mod 1461"
  define g where "g = (D2 - 1) div 365"
  define D3 where "D3 = (D2 - 1) mod 365"
  have eq: "days_to_yearsdays n =
     (if D \<ge> 366 then
        if D1 \<ge> 365 then
          if D2 \<ge> 366 then (400 * q + 100 * c + 4 * f + g + 2000, D3)
          else (400 * q + 100 * c + 4 * f + 2000, D2)
        else (400 * q + 100 * c + 2000, D1)
      else (400 * q + 2000, D))"
    unfolding days_to_yearsdays_def Let_def q_def D_def c_def D1_def f_def D2_def g_def D3_def
    by (rule refl)
  have D: "0 \<le> D" "D < 146097" by (simp_all add: D_def)
  have q: "(n - 10957) div 146097 = q" by (simp add: q_def)
  show ?thesis
  proof (cases "D \<ge> 366")
    case False
    with assms eq have yd: "y = 400 * q + 2000" "d = D" by simp_all
    have "is_leapyear 2000" by (simp add: is_leapyear_def)
    then have "is_leapyear (400 * q + 2000)" by (simp only: is_leapyear_shift)
    with yd D False show ?thesis unfolding q by simp
  next
    case True
    have c: "0 \<le> c" "c \<le> 3" using D True by (simp_all add: c_def)
    have D1: "0 \<le> D1" "D1 < 36524" "D - 1 = 36524 * c + D1" by (simp_all add: D1_def c_def)
    show ?thesis
    proof (cases "D1 \<ge> 365")
      case False
      with True assms eq have yd: "y = 400 * q + 100 * c + 2000" "d = D1" by simp_all
      have "c \<ge> 1" using False True D1 c by linarith
      then have nl: "\<not> is_leapyear (100 * c + 2000)" using c(2) by (rule leap_b)
      have "\<not> is_leapyear (400 * q + (100 * c + 2000))" unfolding is_leapyear_shift by (rule nl)
      then have "\<not> is_leapyear (400 * q + 100 * c + 2000)" by (simp add: add.assoc)
      with yd D1 False c show ?thesis unfolding q by simp
    next
      case d1: True
      have f: "0 \<le> f" "f \<le> 24" using D1 d1 by (simp_all add: f_def)
      have D2: "0 \<le> D2" "D2 < 1461" "D1 + 1 = 1461 * f + D2" by (simp_all add: D2_def f_def)
      show ?thesis
      proof (cases "D2 \<ge> 366")
        case False
        with True d1 assms eq have yd: "y = 400 * q + 100 * c + 4 * f + 2000" "d = D2" by simp_all
        have "f \<ge> 1" using False d1 D2 f by linarith
        with c have lp: "is_leapyear (100 * c + 4 * f + 2000)" using f(2) by (rule leap_c)
        have "is_leapyear (400 * q + (100 * c + 4 * f + 2000))" unfolding is_leapyear_shift by (rule lp)
        then have "is_leapyear (400 * q + 100 * c + 4 * f + 2000)" by (simp add: add.assoc)
        with yd D2 False c f show ?thesis unfolding q by simp
      next
        case d2: True
        have "365 div 365 \<le> (D2 - 1) div 365" using d2 by (intro zdiv_mono1) simp_all
        moreover have "(D2 - 1) div 365 \<le> 1459 div 365" using D2 by (intro zdiv_mono1) simp_all
        ultimately have g: "1 \<le> g" "g \<le> 3" by (simp_all add: g_def)
        have D3: "0 \<le> D3" "D3 < 365" by (simp_all add: D3_def)
        from True d1 d2 assms eq have yd: "y = 400 * q + 100 * c + 4 * f + g + 2000" "d = D3"
          by simp_all
        from g have nl: "\<not> is_leapyear (100 * c + 4 * f + g + 2000)" by (rule leap_d)
        have "\<not> is_leapyear (400 * q + (100 * c + 4 * f + g + 2000))" unfolding is_leapyear_shift by (rule nl)
        then have "\<not> is_leapyear (400 * q + 100 * c + 4 * f + g + 2000)" by (simp add: add.assoc)
        with yd D3 c f g show ?thesis unfolding q by simp
      qed
    qed
  qed
qed

lemma sum_list_days_per_month_table:
  "sum_list (days_per_month_table leap) = (if leap then 366 else 365)"
  by (simp add: days_per_month_table_def)

lemma timestamp_of_ns_fields:
  assumes "- 9223372036854775807 \<le> n" "n \<le> 9223372036854775807"
  shows "1600 \<le> year (timestamp_of_ns n)" "year (timestamp_of_ns n) \<le> 2399"
    "1 \<le> month (timestamp_of_ns n)" "month (timestamp_of_ns n) \<le> 12"
    "1 \<le> day (timestamp_of_ns n)"
    "day (timestamp_of_ns n) \<le>
       days_per_month_table (is_leapyear (year (timestamp_of_ns n))) ! nat (month (timestamp_of_ns n) - 1)"
    "0 \<le> hour (timestamp_of_ns n)" "hour (timestamp_of_ns n) < 24"
    "0 \<le> minute (timestamp_of_ns n)" "minute (timestamp_of_ns n) < 60"
proof -
  define days where "days = n div 86400000000000"
  define t where "t = n mod 86400000000000"
  obtain y doy where yd: "days_to_yearsdays days = (y, doy)" by (cases "days_to_yearsdays days")
  obtain m d where md: "month_and_day (days_per_month_table (is_leapyear y)) 0 doy = (m, d)"
    by (cases "month_and_day (days_per_month_table (is_leapyear y)) 0 doy")
  have ts: "timestamp_of_ns n = \<lparr> year = y, month = m, day = d,
          hour = t div 3600000000000,
          minute = t div 60000000000 mod 60,
          second = t div 1000000000 mod 60,
          nanosecond = t mod 1000000000 \<rparr>"
    using yd md unfolding timestamp_of_ns_def Let_def days_def [symmetric] t_def [symmetric]
    by simp
  have "(- 9223372036854775807) div 86400000000000 \<le> days" unfolding days_def
    using assms(1) by (intro zdiv_mono1) simp_all
  then have lo: "- 106752 \<le> days" by simp
  have "days \<le> 9223372036854775807 div 86400000000000" unfolding days_def
    using assms(2) by (intro zdiv_mono1) simp_all
  then have hi: "days \<le> 106751" by simp
  have "(- 106752 - 10957) div 146097 \<le> (days - 10957) div 146097"
    using lo by (intro zdiv_mono1) simp_all
  then have qlo: "- 1 \<le> (days - 10957) div 146097" by simp
  have "(days - 10957) div 146097 \<le> (106751 - 10957) div 146097"
    using hi by (intro zdiv_mono1) simp_all
  then have qhi: "(days - 10957) div 146097 \<le> 0" by simp
  from days_to_yearsdays_range [OF yd]
  have r: "0 \<le> doy" "doy < (if is_leapyear y then 366 else 365)"
    "400 * ((days - 10957) div 146097) + 2000 \<le> y" "y \<le> 400 * ((days - 10957) div 146097) + 2399"
    by simp_all
  from r(3,4) qlo qhi have y: "1600 \<le> y" "y \<le> 2399" by linarith+
  have "doy < sum_list (days_per_month_table (is_leapyear y))"
    using r(2) by (simp only: sum_list_days_per_month_table)
  from month_and_day_range [OF r(1) this md]
  have m: "1 \<le> m" "m \<le> 12" "1 \<le> d" "d \<le> days_per_month_table (is_leapyear y) ! nat (m - 1)"
    by (simp_all add: days_per_month_table_def)
  have t: "0 \<le> t" "t < 86400000000000" by (simp_all add: t_def)
  have "t div 3600000000000 \<le> 86399999999999 div 3600000000000"
    using t by (intro zdiv_mono1) simp_all
  then have h: "t div 3600000000000 < 24" by simp
  have h0: "0 \<le> t div 3600000000000" using t by (simp add: pos_imp_zdiv_nonneg_iff)
  show "1600 \<le> year (timestamp_of_ns n)" "year (timestamp_of_ns n) \<le> 2399"
    "1 \<le> month (timestamp_of_ns n)" "month (timestamp_of_ns n) \<le> 12"
    "1 \<le> day (timestamp_of_ns n)"
    "day (timestamp_of_ns n) \<le>
       days_per_month_table (is_leapyear (year (timestamp_of_ns n))) ! nat (month (timestamp_of_ns n) - 1)"
    "0 \<le> hour (timestamp_of_ns n)" "hour (timestamp_of_ns n) < 24"
    "0 \<le> minute (timestamp_of_ns n)" "minute (timestamp_of_ns n) < 60"
    using y m h h0 by (simp_all add: ts)
qed

lemma digit_val_digit_char: "digit_val (digit_char d) = Some (d mod 10)"
proof -
  define k where "k = d mod 10"
  have "0 \<le> k" "k < 10" by (simp_all add: k_def)
  then have "k = 0 \<or> k = 1 \<or> k = 2 \<or> k = 3 \<or> k = 4 \<or> k = 5 \<or> k = 6 \<or> k = 7 \<or> k = 8 \<or> k = 9"
    by arith
  then have "digit_val (''0123456789'' ! nat k) = Some k"
    by (elim disjE) (simp_all add: digit_val_def)
  then show ?thesis by (simp add: digit_char_def k_def)
qed

lemma number_pad2: "0 \<le> n \<Longrightarrow> n < 100 \<Longrightarrow> number (pad2 n) 0 = Some n"
proof -
  assume a: "0 \<le> n" "n < 100"
  then have "n div 10 mod 10 = n div 10" by simp
  then have "10 * (n div 10 mod 10) + n mod 10 = n" by simp
  then show ?thesis by (simp add: pad2_def digit_val_digit_char)
qed

lemma digits4_aux:
  fixes a :: int
  shows "a * 10 + bm = b \<Longrightarrow> b * 10 + cm = c \<Longrightarrow> c * 10 + nm = n \<Longrightarrow>
         10 * (10 * (10 * a + bm) + cm) + nm = n"
  by (clarify, simp add: algebra_simps)

lemma number_pad4: "0 \<le> n \<Longrightarrow> n < 10000 \<Longrightarrow> number (pad4 n) 0 = Some n"
proof -
  assume a: "0 \<le> n" "n < 10000"
  have 1: "n div 1000 mod 10 = n div 1000" using a by simp
  have e2: "n div 1000 = n div 100 div 10" using zdiv_zmult2_eq [of 10 n 100] by simp
  have e3: "n div 100 = n div 10 div 10" using zdiv_zmult2_eq [of 10 n 10] by simp
  have 2: "n div 1000 * 10 + n div 100 mod 10 = n div 100"
    unfolding e2 by (rule div_mult_mod_eq)
  have 3: "n div 100 * 10 + n div 10 mod 10 = n div 10"
    unfolding e3 by (rule div_mult_mod_eq)
  have 4: "n div 10 * 10 + n mod 10 = n" by (rule div_mult_mod_eq)
  have "10 * (10 * (10 * (n div 1000) + n div 100 mod 10) + n div 10 mod 10) + n mod 10 = n"
    using 2 3 4 by (rule digits4_aux)
  then have "number (pad4 n) 0 = Some n"
    unfolding pad4_def number.simps digit_val_digit_char option.case 1 by simp
  then show ?thesis .
qed

lemma length_pad [simp]: "length (pad2 n) = 2" "length (pad4 n) = 4"
  by (simp_all add: pad2_def pad4_def)

lemma format_minute_shape:
  "length (format_minute ts) = 16"
  "format_minute ts ! 4 = CHR ''-''" "format_minute ts ! 7 = CHR ''-''"
  "format_minute ts ! 10 = CHR '' ''" "format_minute ts ! 13 = CHR '':''"
  "take 4 (format_minute ts) = pad4 (year ts)"
  "take 2 (drop 5 (format_minute ts)) = pad2 (month ts)"
  "take 2 (drop 8 (format_minute ts)) = pad2 (day ts)"
  "take 2 (drop 11 (format_minute ts)) = pad2 (hour ts)"
  "take 2 (drop 14 (format_minute ts)) = pad2 (minute ts)"
  by (simp_all add: format_minute_def pad2_def pad4_def)

lemma parse_minute_format_minute:
  assumes "0 \<le> year ts" "year ts < 10000" "1 \<le> month ts" "month ts \<le> 12" "1 \<le> day ts"
    "day ts \<le> days_per_month_table (is_leapyear (year ts)) ! nat (month ts - 1)"
    "0 \<le> hour ts" "hour ts < 24" "0 \<le> minute ts" "minute ts < 60"
  shows "parse_minute (format_minute ts) =
         Inr \<lparr> year = year ts, month = month ts, day = day ts, hour = hour ts,
               minute = minute ts, second = 0, nanosecond = 0 \<rparr>"
proof -
  have d: "day ts \<le> 31"
  proof -
    have "\<forall>x \<in> set (days_per_month_table (is_leapyear (year ts))). x \<le> 31"
      by (simp add: days_per_month_table_def)
    moreover have "nat (month ts - 1) < length (days_per_month_table (is_leapyear (year ts)))"
      using assms(3,4) by (simp add: days_per_month_table_def)
    ultimately have "days_per_month_table (is_leapyear (year ts)) ! nat (month ts - 1) \<le> 31"
      using nth_mem by blast
    with assms(6) show ?thesis by linarith
  qed
  have n: "number (pad4 (year ts)) 0 = Some (year ts)" "number (pad2 (month ts)) 0 = Some (month ts)"
    "number (pad2 (day ts)) 0 = Some (day ts)" "number (pad2 (hour ts)) 0 = Some (hour ts)"
    "number (pad2 (minute ts)) 0 = Some (minute ts)"
    using assms d by (simp_all add: number_pad2 number_pad4)
  show ?thesis
    unfolding parse_minute_def format_minute_shape n using assms by simp
qed


section \<open>The loop of the normalizer\<close>

lemma parse_features_fail:
  "isl (parse_features lib items acc) \<longleftrightarrow> (\<exists>item \<in> set items. isl (parse_feature lib item))"
proof (induction items arbitrary: acc)
  case Nil
  show ?case by simp
next
  case (Cons item items)
  show ?case
  proof (cases "parse_feature lib item")
    case (Inl e)
    then show ?thesis by simp
  next
    case (Inr r)
    with Cons.IH show ?thesis by (cases r) simp_all
  qed
qed

lemma parse_features_skip_null:
  "parse_features lib items acc =
   parse_features lib (filter (\<lambda>item. item_mag item \<noteq> Inr JNull) items) acc"
proof (induction items arbitrary: acc)
  case Nil
  show ?case by simp
next
  case (Cons item items)
  show ?case
  proof (cases "item_mag item = Inr JNull")
    case True
    then have "parse_feature lib item = Inr None" by (simp add: parse_feature_skip)
    with True Cons.IH show ?thesis by simp
  next
    case False
    with Cons.IH show ?thesis by (simp split: sum.splits option.splits)
  qed
qed

lemma parse_features_kept:
  assumes "parse_features lib items [] = Inr evs"
  shows "list_all2 (\<lambda>item ev. parse_feature lib item = Inr (Some ev))
           (filter (\<lambda>item. item_mag item \<noteq> Inr JNull) items) evs"
  using assms
proof (induction items arbitrary: evs)
  case Nil
  then show ?case by simp
next
  case (Cons item items)
  show ?case
  proof (cases "parse_feature lib item")
    case (Inl e)
    with Cons.prems show ?thesis by simp
  next
    case (Inr r)
    show ?thesis
    proof (cases r)
      case None
      with Inr have "item_mag item = Inr JNull" by (simp add: parse_feature_skip)
      with Cons None Inr show ?thesis by simp
    next
      case (Some ev)
      with Inr have ne: "item_mag item \<noteq> Inr JNull"
        using parse_feature_skip [of lib item] by auto
      from Cons.prems Inr Some have "parse_features lib items [ev] = Inr evs" by simp
      then obtain rest where rest: "parse_features lib items [] = Inr rest" "evs = ev # rest"
        by (subst (asm) parse_features_acc) (auto split: sum.splits)
      from Cons.IH [OF rest(1)] ne Inr Some rest(2) show ?thesis by simp
    qed
  qed
qed

lemma parse_features_member:
  assumes "parse_features lib items [] = Inr evs" "ev \<in> set evs"
  shows "\<exists>item \<in> set items. parse_feature lib item = Inr (Some ev)"
proof -
  have "list_all2 P xs ys \<Longrightarrow> \<forall>y \<in> set ys. \<exists>x \<in> set xs. P x y"
    for P :: "json \<Rightarrow> event \<Rightarrow> bool" and xs ys
    by (induction rule: list_all2_induct) auto
  from this [OF parse_features_kept [OF assms(1)]] assms(2) show ?thesis by auto
qed

lemma fetch_and_parse_member:
  assumes "fetch_and_parse lib r = Inr evs" "ev \<in> set evs"
  shows "\<exists>item. parse_feature lib item = Inr (Some ev)"
proof -
  from assms(1) obtain items where "parse_features lib items [] = Inr evs"
    by (auto simp: fetch_and_parse_def bind_err_eq_Inr split: http_result.splits option.splits)
  from parse_features_member [OF this assms(2)] show ?thesis by blast
qed

lemma get_earthquake_data_cases:
  "(\<exists>e. fetch_and_parse lib r = Inl e \<and> get_earthquake_data lib r = ([StError e], DataFrame [])) \<or>
   (\<exists>evs. fetch_and_parse lib r = Inr evs \<and> get_earthquake_data lib r = ([], DataFrame evs))"
  by (cases "fetch_and_parse lib r") (simp_all add: get_earthquake_data_def)


section \<open>Failure of the acquisition\<close>

lemmas calendar_eval =
  timestamp_of_ns_def days_to_yearsdays_def is_leapyear_def days_per_month_table_def
  format_minute_def pad2_def pad4_def digit_char_def Let_def

lemmas feature_eval =
  parse_feature_def item_mag_def visual_radius_def whole_ms_def example_library_def calendar_eval

lemmas fetch_eval =
  get_earthquake_data_def fetch_and_parse_def feature_eval

lemma isl_fetch_and_parse:
  "isl (fetch_and_parse lib r) \<longleftrightarrow>
     r = ConnectionFailed \<or> r = TimedOut \<or> (\<exists>status. r = Response status None) \<or>
     (\<exists>status json_data. r = Response status (Some json_data) \<and>
        (isl (getitem json_data ''features'') \<or>
         (\<exists>features. getitem json_data ''features'' = Inr features \<and>
            (isl (iterate features) \<or>
             (\<exists>items. iterate features = Inr items \<and>
                (\<exists>item \<in> set items. isl (parse_feature lib item)))))))"
proof (cases r)
  case ConnectionFailed
  then show ?thesis by (simp add: fetch_and_parse_def)
next
  case TimedOut
  then show ?thesis by (simp add: fetch_and_parse_def)
next
  case (Response status body)
  show ?thesis
  proof (cases body)
    case None
    with Response show ?thesis by (simp add: fetch_and_parse_def)
  next
    case (Some json_data)
    show ?thesis
    proof (cases "getitem json_data ''features''")
      case (Inl e)
      with Response Some show ?thesis by (simp add: fetch_and_parse_def)
    next
      case (Inr features)
      show ?thesis
      proof (cases "iterate features")
        case (Inl e)
        with Response Some Inr show ?thesis by (simp add: fetch_and_parse_def)
      next
        case items: (Inr items)
        with Response Some Inr show ?thesis
          by (simp add: fetch_and_parse_def parse_features_fail)
      qed
    qed
  qed
qed

text \<open>
  C5 (as amended). Every failure of the acquisition that raises in the body of the \<^verbatim>\<open>try\<close>:
  a failed connection, a timeout, a body that is not JSON, a document without a usable
  \<^verbatim>\<open>features\<close> entry, or a feature that raises while it is read (one with a missing key
  does, whatever the libraries are), makes \<open>get_earthquake_data\<close> show the error and
  return the empty frame, with no rows and no columns. The function returns in every case;
  it raises nothing. The status code of the response takes no part.
\<close>

theorem acquisition_failure_empty_frame:
  assumes "r = ConnectionFailed \<or> r = TimedOut \<or> (\<exists>status. r = Response status None) \<or>
     (\<exists>status json_data. r = Response status (Some json_data) \<and>
        (isl (getitem json_data ''features'') \<or>
         (\<exists>features. getitem json_data ''features'' = Inr features \<and>
            (isl (iterate features) \<or>
             (\<exists>items. iterate features = Inr items \<and>
                (\<exists>item \<in> set items. isl (parse_feature lib item)))))))"
  shows "\<exists>e. get_earthquake_data lib r =
              ([StError e], \<lparr> columns = [], index = [], data = [] \<rparr>)"
proof -
  from assms have "isl (fetch_and_parse lib r)" by (simp only: isl_fetch_and_parse)
  then obtain e where "fetch_and_parse lib r = Inl e" by (cases "fetch_and_parse lib r") simp_all
  then show ?thesis by (simp add: get_earthquake_data_def DataFrame_def)
qed

text \<open>The theorem at a feed whose only feature has no \<^verbatim>\<open>properties\<close>.\<close>

theorem acquisition_failure_empty_frame_witness:
  "get_earthquake_data example_library (Response 200 (Some (JObj [(''features'', JArr [JObj []])]))) =
     ([StError KeyError], \<lparr> columns = [], index = [], data = [] \<rparr>)"
proof -
  have "isl (parse_feature example_library (JObj []))" by (simp add: parse_feature_def item_mag_def)
  then have "\<exists>e. get_earthquake_data example_library (Response 200 (Some (JObj [(''features'', JArr [JObj []])]))) =
              ([StError e], \<lparr> columns = [], index = [], data = [] \<rparr>)"
    by (intro acquisition_failure_empty_frame) simp
  then show ?thesis by (simp add: fetch_eval)
qed

text \<open>
  C5 as it is stated fails for a response that is not 2xx: status 503 with the body of a
  feed is read like any other response, with a row in the frame and no error shown.
\<close>

theorem non_2xx_response_counterexample:
  "get_earthquake_data example_library (Response 503 (Some (JObj [(''features'', JArr [JObj
      [(''properties'', JObj [(''mag'', JNum 5), (''place'', JStr ''A''), (''time'', JNum 0)]),
       (''geometry'', JObj [(''coordinates'', JArr [JNum 10, JNum 20])])]])]))) =
   ([], \<lparr> columns = [''lat'', ''lon'', ''mag'', ''place'', ''time'', ''radius''],
          index = [0],
          data = [[Val (JNum 20), Val (JNum 10), Val (JNum 5), Val (JStr ''A''),
                   Val (JStr ''1970-01-01 00:00''), Flt (Float 30000)]] \<rparr>)"
  by (simp add: fetch_eval DataFrame_def row_of_def)


section \<open>The minute of a timestamp\<close>

lemma minute_of_day:
  "(n mod 86400000000000) div 60000000000 = n div 60000000000 mod (1440 :: int)"
proof -
  have "n mod (60000000000 * 1440) =
        60000000000 * (n div 60000000000 mod 1440) + n mod 60000000000"
    by (rule zmod_zmult2_eq) simp
  then have e: "n mod 86400000000000 =
        n mod 60000000000 + 60000000000 * (n div 60000000000 mod 1440)"
    by simp
  have "(n mod 60000000000 + 60000000000 * (n div 60000000000 mod 1440)) div 60000000000 =
        n div 60000000000 mod 1440 + n mod 60000000000 div 60000000000"
    by (rule div_mult_self2) simp
  also have "n mod 60000000000 div 60000000000 = 0"
    by (rule div_pos_pos_trivial) simp_all
  finally show ?thesis unfolding e by simp
qed

lemma day_of_minute: "n div 86400000000000 = n div 60000000000 div (1440 :: int)"
  using zdiv_zmult2_eq [of 1440 n 60000000000] by simp

lemma hour_of_minute:
  "(t :: int) div 3600000000000 = t div 60000000000 div 60"
  using zdiv_zmult2_eq [of 60 t 60000000000] by simp

lemma format_minute_same_minute:
  assumes "n div 60000000000 = n' div 60000000000"
  shows "format_minute (timestamp_of_ns n) = format_minute (timestamp_of_ns n')"
proof -
  have d: "n div 86400000000000 = n' div 86400000000000"
    by (simp only: day_of_minute assms)
  have m: "(n mod 86400000000000) div 60000000000 = (n' mod 86400000000000) div 60000000000"
    by (simp only: minute_of_day assms)
  have h: "(n mod 86400000000000) div 3600000000000 = (n' mod 86400000000000) div 3600000000000"
    by (simp only: hour_of_minute m)
  show ?thesis
    unfolding format_minute_def timestamp_of_ns_def Let_def d h m
    by (simp add: case_prod_unfold)
qed


section \<open>The normalized collection\<close>

lemma position_columns:
  "position [''lat'', ''lon'', ''mag'', ''place'', ''time'', ''radius''] ''lat'' = Some 0"
  "position [''lat'', ''lon'', ''mag'', ''place'', ''time'', ''radius''] ''lon'' = Some 1"
  "position [''lat'', ''lon'', ''mag'', ''place'', ''time'', ''radius''] ''mag'' = Some 2"
  "position [''lat'', ''lon'', ''mag'', ''place'', ''time'', ''radius''] ''place'' = Some 3"
  "position [''lat'', ''lon'', ''mag'', ''place'', ''time'', ''radius''] ''time'' = Some 4"
  "position [''lat'', ''lon'', ''mag'', ''place'', ''time'', ''radius''] ''radius'' = Some 5"
  "position [''lat'', ''lon'', ''mag'', ''place'', ''time'', ''radius''] ''datetime'' = None"
  "position [''lat'', ''lon'', ''mag'', ''place'', ''time'', ''radius''] ''hour'' = None"
  by simp_all

lemma column_DataFrame_Nil: "column (DataFrame []) name = Inl KeyError"
  by (simp add: column_def DataFrame_def)

lemma column_DataFrame:
  assumes "evs \<noteq> []"
  shows "column (DataFrame evs) ''lat'' = Inr (map (\<lambda>ev. Val (lat ev)) evs)"
    "column (DataFrame evs) ''lon'' = Inr (map (\<lambda>ev. Val (lon ev)) evs)"
    "column (DataFrame evs) ''mag'' = Inr (map (\<lambda>ev. Val (mag ev)) evs)"
    "column (DataFrame evs) ''place'' = Inr (map (\<lambda>ev. Val (place ev)) evs)"
    "column (DataFrame evs) ''time'' = Inr (map (\<lambda>ev. Val (JStr (time ev))) evs)"
    "column (DataFrame evs) ''radius'' = Inr (map (\<lambda>ev. Flt (radius ev)) evs)"
  using assms by (simp_all add: column_def DataFrame_def position_columns row_of_def)

text \<open>
  C2. A feature whose magnitude is \<^verbatim>\<open>None\<close> adds nothing to \<open>parsed_data\<close>: the loop gives
  the same result with and without such features. So no event of the normalized
  collection has the magnitude \<^verbatim>\<open>None\<close>, and whatever the response, the column \<^verbatim>\<open>mag\<close> of
  the frame that \<open>get_earthquake_data\<close> returns holds no \<^verbatim>\<open>None\<close>.
\<close>

theorem null_magnitude_excluded:
  "parse_features lib items parsed_data =
     parse_features lib (filter (\<lambda>item. item_mag item \<noteq> Inr JNull) items) parsed_data \<and>
   (fetch_and_parse lib r = Inr evs \<longrightarrow> (\<forall>ev \<in> set evs. mag ev \<noteq> JNull)) \<and>
   (column (snd (get_earthquake_data lib r)) ''mag'' = Inr s \<longrightarrow> Val JNull \<notin> set s)"
proof (intro conjI impI)
  show "parse_features lib items parsed_data =
     parse_features lib (filter (\<lambda>item. item_mag item \<noteq> Inr JNull) items) parsed_data"
    by (rule parse_features_skip_null)
next
  assume ok: "fetch_and_parse lib r = Inr evs"
  show "\<forall>ev \<in> set evs. mag ev \<noteq> JNull"
  proof
    fix ev
    assume "ev \<in> set evs"
    from fetch_and_parse_member [OF ok this] obtain item
      where "parse_feature lib item = Inr (Some ev)" by blast
    from parse_feature_keptD [OF this] show "mag ev \<noteq> JNull" by blast
  qed
next
  assume col: "column (snd (get_earthquake_data lib r)) ''mag'' = Inr s"
  from get_earthquake_data_cases [of lib r] obtain evs'
    where ok: "fetch_and_parse lib r = Inr evs'" and df: "snd (get_earthquake_data lib r) = DataFrame evs'"
    using col by (auto simp: column_DataFrame_Nil)
  from col df have "evs' \<noteq> []" by (auto simp: column_DataFrame_Nil)
  with col df have s: "s = map (\<lambda>ev. Val (mag ev)) evs'" by (simp add: column_DataFrame)
  have "\<forall>ev \<in> set evs'. mag ev \<noteq> JNull"
  proof
    fix ev
    assume "ev \<in> set evs'"
    from fetch_and_parse_member [OF ok this] obtain item
      where "parse_feature lib item = Inr (Some ev)" by blast
    from parse_feature_keptD [OF this] show "mag ev \<noteq> JNull" by blast
  qed
  with s show "Val JNull \<notin> set s" by auto
qed

text \<open>The theorem at a feed of two features, the first without a magnitude.\<close>

theorem null_magnitude_excluded_witness:
  "parse_features example_library
     [JObj [(''properties'', JObj [(''mag'', JNull)])],
      JObj [(''properties'', JObj [(''mag'', JNum 5), (''place'', JStr ''A''), (''time'', JNum 0)]),
            (''geometry'', JObj [(''coordinates'', JArr [JNum 10, JNum 20])])]] [] =
   Inr [\<lparr> lat = JNum 20, lon = JNum 10, mag = JNum 5, place = JStr ''A'',
          time = ''1970-01-01 00:00'', radius = Float 30000 \<rparr>] \<and>
   column (snd (get_earthquake_data example_library (Response 200 (Some (JObj [(''features'', JArr
     [JObj [(''properties'', JObj [(''mag'', JNull)])],
      JObj [(''properties'', JObj [(''mag'', JNum 5), (''place'', JStr ''A''), (''time'', JNum 0)]),
            (''geometry'', JObj [(''coordinates'', JArr [JNum 10, JNum 20])])]])]))))) ''mag'' =
   Inr [Val (JNum 5)] \<and>
   Val JNull \<notin> set [Val (JNum 5)]"
proof -
  have p: "parse_features example_library
     [JObj [(''properties'', JObj [(''mag'', JNull)])],
      JObj [(''properties'', JObj [(''mag'', JNum 5), (''place'', JStr ''A''), (''time'', JNum 0)]),
            (''geometry'', JObj [(''coordinates'', JArr [JNum 10, JNum 20])])]] [] =
   Inr [\<lparr> lat = JNum 20, lon = JNum 10, mag = JNum 5, place = JStr ''A'',
          time = ''1970-01-01 00:00'', radius = Float 30000 \<rparr>]"
    by (simp add: feature_eval)
  then have c: "column (snd (get_earthquake_data example_library (Response 200 (Some (JObj [(''features'', JArr
     [JObj [(''properties'', JObj [(''mag'', JNull)])],
      JObj [(''properties'', JObj [(''mag'', JNum 5), (''place'', JStr ''A''), (''time'', JNum 0)]),
            (''geometry'', JObj [(''coordinates'', JArr [JNum 10, JNum 20])])]])]))))) ''mag'' =
   Inr [Val (JNum 5)]"
    by (simp add: get_earthquake_data_def fetch_and_parse_def column_DataFrame)
  from null_magnitude_excluded [where s = "[Val (JNum 5)]"] c
  have "Val JNull \<notin> set [Val (JNum 5)]" by blast
  with p c show ?thesis by blast
qed


text \<open>
  C4. For a kept feature whose \<^verbatim>\<open>coordinates\<close> are a list that starts with \<open>x\<close> and \<open>y\<close>, the
  event has \<open>lon = x\<close> and \<open>lat = y\<close>, and so have the columns \<^verbatim>\<open>lon\<close> and \<^verbatim>\<open>lat\<close> of its
  row in the frame: the first element is the longitude, the second the latitude.
\<close>

theorem longitude_first_latitude_second:
  assumes "parse_feature lib item = Inr (Some ev)"
    and "getitem item ''geometry'' = Inr g"
    and "getitem g ''coordinates'' = Inr (JArr (x # y # rest))"
  shows "lon ev = x \<and> lat ev = y \<and>
         column (DataFrame [ev]) ''lon'' = Inr [Val x] \<and>
         column (DataFrame [ev]) ''lat'' = Inr [Val y]"
proof -
  from parse_feature_keptD [OF assms(1)] assms(2,3)
  have "lon ev = x" "lat ev = y" by auto
  then show ?thesis by (simp add: column_DataFrame)
qed

text \<open>The theorem at the coordinates \<^verbatim>\<open>[10.0, 20.0]\<close>: longitude 10, latitude 20.\<close>

theorem longitude_first_latitude_second_witness:
  "parse_feature example_library (JObj
     [(''properties'', JObj [(''mag'', JNum 5), (''place'', JStr ''A''), (''time'', JNum 0)]),
      (''geometry'', JObj [(''coordinates'', JArr [JNum 10, JNum 20])])]) =
   Inr (Some \<lparr> lat = JNum 20, lon = JNum 10, mag = JNum 5, place = JStr ''A'',
               time = ''1970-01-01 00:00'', radius = Float 30000 \<rparr>) \<and>
   lon \<lparr> lat = JNum 20, lon = JNum 10, mag = JNum 5, place = JStr ''A'',
         time = ''1970-01-01 00:00'', radius = Float 30000 \<rparr> = JNum 10 \<and>
   lat \<lparr> lat = JNum 20, lon = JNum 10, mag = JNum 5, place = JStr ''A'',
         time = ''1970-01-01 00:00'', radius = Float 30000 \<rparr> = JNum 20"
proof -
  have p: "parse_feature example_library (JObj
     [(''properties'', JObj [(''mag'', JNum 5), (''place'', JStr ''A''), (''time'', JNum 0)]),
      (''geometry'', JObj [(''coordinates'', JArr [JNum 10, JNum 20])])]) =
   Inr (Some \<lparr> lat = JNum 20, lon = JNum 10, mag = JNum 5, place = JStr ''A'',
               time = ''1970-01-01 00:00'', radius = Float 30000 \<rparr>)"
    by (simp add: feature_eval)
  have g: "getitem (JObj
     [(''properties'', JObj [(''mag'', JNum 5), (''place'', JStr ''A''), (''time'', JNum 0)]),
      (''geometry'', JObj [(''coordinates'', JArr [JNum 10, JNum 20])])]) ''geometry'' =
      Inr (JObj [(''coordinates'', JArr [JNum 10, JNum 20])])"
    by simp
  have c: "getitem (JObj [(''coordinates'', JArr [JNum 10, JNum 20])]) ''coordinates'' =
      Inr (JArr (JNum 10 # JNum 20 # []))"
    by simp
  from longitude_first_latitude_second [OF p g c] p show ?thesis by blast
qed


text \<open>
  C7 (as amended). When the \<^verbatim>\<open>time\<close> of a kept feature is a whole number \<open>k\<close> of
  milliseconds whose nanoseconds fit 64 bits, the string of the event is the one of the
  start of the minute in which \<open>k\<close> lies: the seconds and the milliseconds are dropped. The
  string has the pattern \<^verbatim>\<open>YYYY-MM-DD HH:MM\<close>, and read back it is the timestamp of \<open>k\<close>
  with the seconds and the nanoseconds set to 0.
\<close>

theorem time_string_minute_granularity:
  assumes "parse_feature lib item = Inr (Some ev)"
    and "getitem item ''properties'' = Inr props"
    and "getitem props ''time'' = Inr (JNum (of_int k))"
    and "- 9223372036854775807 \<le> k * 1000000"
    and "k * 1000000 \<le> 9223372036854775807"
  shows "time ev = format_minute (timestamp_of_ns (k div 60000 * 60000000000)) \<and>
         length (time ev) = 16 \<and> time ev ! 4 = CHR ''-'' \<and> time ev ! 7 = CHR ''-'' \<and>
         time ev ! 10 = CHR '' '' \<and> time ev ! 13 = CHR '':'' \<and>
         parse_minute (time ev) =
           Inr ((timestamp_of_ns (k * 1000000)) \<lparr> second := 0, nanosecond := 0 \<rparr>)"
proof -
  define ts where "ts = timestamp_of_ns (k * 1000000)"
  from assms(4,5) have w: "whole_ms (of_int k)" by (simp add: whole_ms_def)
  from parse_feature_keptD [OF assms(1)] assms(2,3)
  have "time_string lib (JNum (of_int k)) = Inr (time ev)" by auto
  with w have s: "time ev = format_minute ts" by (simp add: ts_def)
  have "k * 1000000 div 60000000000 = k div 60000"
    using zdiv_zmult2_eq [of 60000 "k * 1000000" 1000000] by simp
  then have "(k div 60000 * 60000000000) div 60000000000 = k * 1000000 div 60000000000"
    by simp
  then have m: "format_minute ts = format_minute (timestamp_of_ns (k div 60000 * 60000000000))"
    unfolding ts_def by (intro format_minute_same_minute) simp
  note f = timestamp_of_ns_fields [OF assms(4,5)]
  have "parse_minute (format_minute ts) =
         Inr \<lparr> year = year ts, month = month ts, day = day ts, hour = hour ts,
               minute = minute ts, second = 0, nanosecond = 0 \<rparr>"
    unfolding ts_def using f by (intro parse_minute_format_minute) simp_all
  also have "\<lparr> year = year ts, month = month ts, day = day ts, hour = hour ts,
               minute = minute ts, second = 0, nanosecond = 0 \<rparr> =
             ts \<lparr> second := 0, nanosecond := 0 \<rparr>"
    by simp
  finally have "parse_minute (time ev) =
      Inr ((timestamp_of_ns (k * 1000000)) \<lparr> second := 0, nanosecond := 0 \<rparr>)"
    by (simp only: s ts_def)
  with s m show ?thesis by (simp add: format_minute_shape)
qed

text \<open>The theorem at the time 1700000000123 ms: 2023-11-14 22:13:20.123 becomes 22:13.\<close>

theorem time_string_minute_granularity_witness:
  "parse_feature example_library (JObj
     [(''properties'', JObj [(''mag'', JNum 5), (''place'', JStr ''A''),
                             (''time'', JNum 1700000000123)]),
      (''geometry'', JObj [(''coordinates'', JArr [JNum 10, JNum 20])])]) =
   Inr (Some \<lparr> lat = JNum 20, lon = JNum 10, mag = JNum 5, place = JStr ''A'',
               time = ''2023-11-14 22:13'', radius = Float 30000 \<rparr>) \<and>
   ''2023-11-14 22:13'' =
     format_minute (timestamp_of_ns (1700000000123 div 60000 * 60000000000)) \<and>
   parse_minute ''2023-11-14 22:13'' =
     Inr ((timestamp_of_ns (1700000000123 * 1000000)) \<lparr> second := 0, nanosecond := 0 \<rparr>) \<and>
   second (timestamp_of_ns (1700000000123 * 1000000)) = 20"
proof -
  have p: "parse_feature example_library (JObj
     [(''properties'', JObj [(''mag'', JNum 5), (''place'', JStr ''A''),
                             (''time'', JNum 1700000000123)]),
      (''geometry'', JObj [(''coordinates'', JArr [JNum 10, JNum 20])])]) =
   Inr (Some \<lparr> lat = JNum 20, lon = JNum 10, mag = JNum 5, place = JStr ''A'',
               time = ''2023-11-14 22:13'', radius = Float 30000 \<rparr>)"
    by (simp add: feature_eval)
  have g: "getitem (JObj
     [(''properties'', JObj [(''mag'', JNum 5), (''place'', JStr ''A''),
                             (''time'', JNum 1700000000123)]),
      (''geometry'', JObj [(''coordinates'', JArr [JNum 10, JNum 20])])]) ''properties'' =
    Inr (JObj [(''mag'', JNum 5), (''place'', JStr ''A''), (''time'', JNum 1700000000123)])"
    by simp
  have t: "getitem (JObj [(''mag'', JNum 5), (''place'', JStr ''A''),
                          (''time'', JNum 1700000000123)]) ''time'' =
    Inr (JNum (of_int 1700000000123))"
    by simp
  have s: "second (timestamp_of_ns (1700000000123 * 1000000)) = 20"
    by (simp add: calendar_eval)
  have b: "- 9223372036854775807 \<le> (1700000000123 :: int) * 1000000"
    "(1700000000123 :: int) * 1000000 \<le> 9223372036854775807"
    by simp_all
  have e: "time \<lparr> lat = JNum 20, lon = JNum 10, mag = JNum 5, place = JStr ''A'',
               time = ''2023-11-14 22:13'', radius = Float 30000 \<rparr> = ''2023-11-14 22:13''"
    by simp
  from time_string_minute_granularity [OF p g t b, unfolded e] p s show ?thesis by blast
qed

text \<open>
  C7 as it is stated fails at a time that is not a whole number of milliseconds. What
  becomes of the fraction is the library's doing, and pandas 2.3 does not drop it: it
  rounds the time to the nearest nanosecond. With a library that does so, the time
  59999.9999996 ms, which lies in the minute 00:00 of 1970-01-01, four tenths of a
  nanosecond before its end, is written as 00:01.
\<close>

theorem fraction_of_millisecond_counterexample:
  "parse_feature rounding_library (JObj
     [(''properties'', JObj [(''mag'', JNum 5), (''place'', JStr ''A''),
                             (''time'', JNum (599999999996 / 10000000))]),
      (''geometry'', JObj [(''coordinates'', JArr [JNum 10, JNum 20])])]) =
   Inr (Some \<lparr> lat = JNum 20, lon = JNum 10, mag = JNum 5, place = JStr ''A'',
               time = ''1970-01-01 00:01'', radius = Float 30000 \<rparr>) \<and>
   format_minute (timestamp_of_ns (\<lfloor>599999999996 / 10000000 / 60000 :: real\<rfloor> * 60000000000)) =
     ''1970-01-01 00:00''"
  by (simp add: feature_eval rounding_library_def round_def)

text \<open>
  C9 (as amended). When the \<^verbatim>\<open>features\<close> of the document are a list and no feature of it
  raises while it is read, the frame is built from one event for each feature whose
  magnitude is not \<^verbatim>\<open>None\<close>, in the order of the features, each event the one read from
  its feature; the rows of the frame are these events in the same order, numbered from 0.
\<close>

theorem one_record_per_feature_in_order:
  assumes "getitem json_data ''features'' = Inr (JArr items)"
    and "\<forall>item \<in> set items. \<not> isl (parse_feature lib item)"
  shows "\<exists>evs. get_earthquake_data lib (Response status (Some json_data)) = ([], DataFrame evs) \<and>
           list_all2 (\<lambda>item ev. parse_feature lib item = Inr (Some ev))
             (filter (\<lambda>item. item_mag item \<noteq> Inr JNull) items) evs \<and>
           data (DataFrame evs) = map row_of evs \<and>
           index (DataFrame evs) = [0 ..< length evs]"
proof -
  from assms(2) have "\<not> isl (parse_features lib items [])" by (simp add: parse_features_fail)
  then obtain evs where evs: "parse_features lib items [] = Inr evs"
    by (cases "parse_features lib items []") simp_all
  with assms(1) have "fetch_and_parse lib (Response status (Some json_data)) = Inr evs"
    by (simp add: fetch_and_parse_def)
  then have "get_earthquake_data lib (Response status (Some json_data)) = ([], DataFrame evs)"
    by (simp add: get_earthquake_data_def)
  with parse_features_kept [OF evs] show ?thesis by (auto simp: DataFrame_def)
qed

text \<open>The theorem at a feed of three features, the second without a magnitude.\<close>

theorem one_record_per_feature_in_order_witness:
  "get_earthquake_data example_library (Response 200 (Some (JObj [(''features'', JArr
     [JObj [(''properties'', JObj [(''mag'', JNum 5), (''place'', JStr ''A''), (''time'', JNum 0)]),
            (''geometry'', JObj [(''coordinates'', JArr [JNum 10, JNum 20])])],
      JObj [(''properties'', JObj [(''mag'', JNull)])],
      JObj [(''properties'', JObj [(''mag'', JNum 4), (''place'', JStr ''B''), (''time'', JNum 60000)]),
            (''geometry'', JObj [(''coordinates'', JArr [JNum 30, JNum 40])])]])]))) =
   ([], DataFrame
     [\<lparr> lat = JNum 20, lon = JNum 10, mag = JNum 5, place = JStr ''A'',
         time = ''1970-01-01 00:00'', radius = Float 30000 \<rparr>,
      \<lparr> lat = JNum 40, lon = JNum 30, mag = JNum 4, place = JStr ''B'',
         time = ''1970-01-01 00:01'', radius = Float 20000 \<rparr>])"
proof -
  have g: "getitem (JObj [(''features'', JArr
     [JObj [(''properties'', JObj [(''mag'', JNum 5), (''place'', JStr ''A''), (''time'', JNum 0)]),
            (''geometry'', JObj [(''coordinates'', JArr [JNum 10, JNum 20])])],
      JObj [(''properties'', JObj [(''mag'', JNull)])],
      JObj [(''properties'', JObj [(''mag'', JNum 4), (''place'', JStr ''B''), (''time'', JNum 60000)]),
            (''geometry'', JObj [(''coordinates'', JArr [JNum 30, JNum 40])])]])]) ''features'' =
    Inr (JArr
     [JObj [(''properties'', JObj [(''mag'', JNum 5), (''place'', JStr ''A''), (''time'', JNum 0)]),
            (''geometry'', JObj [(''coordinates'', JArr [JNum 10, JNum 20])])],
      JObj [(''properties'', JObj [(''mag'', JNull)])],
      JObj [(''properties'', JObj [(''mag'', JNum 4), (''place'', JStr ''B''), (''time'', JNum 60000)]),
            (''geometry'', JObj [(''coordinates'', JArr [JNum 30, JNum 40])])]])"
    by simp
  have p1: "parse_feature example_library (JObj [(''properties'', JObj [(''mag'', JNum 5), (''place'', JStr ''A''), (''time'', JNum 0)]),
            (''geometry'', JObj [(''coordinates'', JArr [JNum 10, JNum 20])])]) =
     Inr (Some \<lparr> lat = JNum 20, lon = JNum 10, mag = JNum 5, place = JStr ''A'',
         time = ''1970-01-01 00:00'', radius = Float 30000 \<rparr>)"
    by (simp add: feature_eval)
  have p2: "parse_feature example_library (JObj [(''properties'', JObj [(''mag'', JNull)])]) = Inr None"
    by (simp add: feature_eval)
  have p3: "parse_feature example_library (JObj [(''properties'', JObj [(''mag'', JNum 4), (''place'', JStr ''B''), (''time'', JNum 60000)]),
            (''geometry'', JObj [(''coordinates'', JArr [JNum 30, JNum 40])])]) =
     Inr (Some \<lparr> lat = JNum 40, lon = JNum 30, mag = JNum 4, place = JStr ''B'',
         time = ''1970-01-01 00:01'', radius = Float 20000 \<rparr>)"
    by (simp add: feature_eval)
  have ok: "\<forall>item \<in> set
     [JObj [(''properties'', JObj [(''mag'', JNum 5), (''place'', JStr ''A''), (''time'', JNum 0)]),
            (''geometry'', JObj [(''coordinates'', JArr [JNum 10, JNum 20])])],
      JObj [(''properties'', JObj [(''mag'', JNull)])],
      JObj [(''properties'', JObj [(''mag'', JNum 4), (''place'', JStr ''B''), (''time'', JNum 60000)]),
            (''geometry'', JObj [(''coordinates'', JArr [JNum 30, JNum 40])])]]. \<not> isl (parse_feature example_library item)"
    by (simp add: p1 p2 p3)
  from one_record_per_feature_in_order [OF g ok, of 200]
  obtain evs where "get_earthquake_data example_library (Response 200 (Some (JObj [(''features'', JArr
     [JObj [(''properties'', JObj [(''mag'', JNum 5), (''place'', JStr ''A''), (''time'', JNum 0)]),
            (''geometry'', JObj [(''coordinates'', JArr [JNum 10, JNum 20])])],
      JObj [(''properties'', JObj [(''mag'', JNull)])],
      JObj [(''properties'', JObj [(''mag'', JNum 4), (''place'', JStr ''B''), (''time'', JNum 60000)]),
            (''geometry'', JObj [(''coordinates'', JArr [JNum 30, JNum 40])])]])]))) = ([], DataFrame evs)"
    and "list_all2 (\<lambda>item ev. parse_feature example_library item = Inr (Some ev))
          (filter (\<lambda>item. item_mag item \<noteq> Inr JNull)
     [JObj [(''properties'', JObj [(''mag'', JNum 5), (''place'', JStr ''A''), (''time'', JNum 0)]),
            (''geometry'', JObj [(''coordinates'', JArr [JNum 10, JNum 20])])],
      JObj [(''properties'', JObj [(''mag'', JNull)])],
      JObj [(''properties'', JObj [(''mag'', JNum 4), (''place'', JStr ''B''), (''time'', JNum 60000)]),
            (''geometry'', JObj [(''coordinates'', JArr [JNum 30, JNum 40])])]]) evs"
    by blast
  then show ?thesis
    by (simp add: item_mag_def list_all2_Cons1 p1 p3)
qed

text \<open>
  C9 as it is stated fails when a feature raises: of two features with a magnitude, the
  second without \<^verbatim>\<open>place\<close>, none is emitted; the frame is empty and the error is shown.
\<close>

theorem one_record_per_feature_counterexample:
  "item_mag (JObj [(''properties'', JObj [(''mag'', JNum 5), (''place'', JStr ''A''), (''time'', JNum 0)]),
                   (''geometry'', JObj [(''coordinates'', JArr [JNum 10, JNum 20])])]) = Inr (JNum 5) \<and>
   item_mag (JObj [(''properties'', JObj [(''mag'', JNum 6), (''time'', JNum 0)]),
                   (''geometry'', JObj [(''coordinates'', JArr [JNum 10, JNum 20])])]) = Inr (JNum 6) \<and>
   get_earthquake_data example_library (Response 200 (Some (JObj [(''features'', JArr
     [JObj [(''properties'', JObj [(''mag'', JNum 5), (''place'', JStr ''A''), (''time'', JNum 0)]),
            (''geometry'', JObj [(''coordinates'', JArr [JNum 10, JNum 20])])],
      JObj [(''properties'', JObj [(''mag'', JNum 6), (''time'', JNum 0)]),
            (''geometry'', JObj [(''coordinates'', JArr [JNum 10, JNum 20])])]])]))) =
   ([StError KeyError], \<lparr> columns = [], index = [], data = [] \<rparr>)"
  by (simp add: fetch_eval DataFrame_def)


section \<open>The filter\<close>

lemma sequence_err_all_Inr: "sequence_err (map (\<lambda>x. Inr (f x)) xs) = Inr (map f xs)"
  by (induction xs) simp_all

lemma mask_filter: "map snd (filter fst (zip (map p xs) xs)) = filter p xs"
  by (induction xs) simp_all

lemma mask_filter_map: "map snd (filter fst (zip (map p xs) (map f xs))) = map f (filter p xs)"
  by (induction xs) simp_all

lemma mask_filter_upt:
  "map snd (filter fst (zip (map p xs) [k ..< k + length xs])) =
   filter (\<lambda>i. p (xs ! (i - k))) [k ..< k + length xs]"
proof (induction xs arbitrary: k)
  case Nil
  show ?case by simp
next
  case (Cons x xs)
  have u: "[k ..< k + length (x # xs)] = k # [Suc k ..< Suc k + length xs]"
    by (simp add: upt_rec)
  have "filter (\<lambda>i. p ((x # xs) ! (i - k))) [Suc k ..< Suc k + length xs] =
        filter (\<lambda>i. p (xs ! (i - Suc k))) [Suc k ..< Suc k + length xs]"
  proof (rule filter_cong [OF refl])
    fix i
    assume "i \<in> set [Suc k ..< Suc k + length xs]"
    then have "i - k = Suc (i - Suc k)" by auto
    then show "p ((x # xs) ! (i - k)) = p (xs ! (i - Suc k))" by simp
  qed
  with Cons.IH [of "Suc k"] show ?case unfolding u by simp
qed

lemma mask_zip:
  "zip (map snd (filter fst (zip m xs))) (map snd (filter fst (zip m ys))) =
   map snd (filter fst (zip m (zip xs ys)))"
proof (induction m arbitrary: xs ys)
  case Nil
  show ?case by simp
next
  case (Cons b m)
  show ?case
  proof (cases xs)
    case Nil
    then show ?thesis by simp
  next
    case xs: (Cons x xs')
    show ?thesis
    proof (cases ys)
      case Nil
      with xs show ?thesis by simp
    next
      case (Cons y ys')
      with xs Cons.IH [of xs' ys'] show ?thesis by simp
    qed
  qed
qed

text \<open>The comparison \<^verbatim>\<open>v >= t\<close> of a magnitude of the collection: a number at least \<open>t\<close>.\<close>

lemma ge_cell_numeric: "num_of v = Some x \<Longrightarrow> ge_cell (Val v) t = Inr (t \<le> x)"
  by simp

lemma ge_cell_mono:
  "t1 \<le> t2 \<Longrightarrow> rel_sum (=) (\<lambda>b1 b2. b2 \<longrightarrow> b1) (ge_cell c t1) (ge_cell c t2)"
  by (induction c t1 rule: ge_cell.induct) (auto split: option.splits)

lemma sequence_err_rel:
  "list_all2 (rel_sum (=) R) xs ys \<Longrightarrow>
   rel_sum (=) (list_all2 R) (sequence_err xs) (sequence_err ys)"
proof (induction rule: list_all2_induct)
  case Nil
  show ?case by simp
next
  case (Cons x xs y ys)
  from Cons(1) Cons.IH show ?case
    by (cases x; cases y; cases "sequence_err xs"; cases "sequence_err ys") simp_all
qed

lemma series_ge_mono:
  assumes "t1 \<le> t2"
  shows "rel_sum (=) (list_all2 (\<lambda>b1 b2. b2 \<longrightarrow> b1)) (series_ge s t1) (series_ge s t2)"
  unfolding series_ge_def
  by (intro sequence_err_rel) (simp add: list_all2_map1 list_all2_map2 list.rel_refl ge_cell_mono [OF assms])

lemma mask_subset:
  "list_all2 (\<lambda>b1 b2. b2 \<longrightarrow> b1) m1 m2 \<Longrightarrow>
   set (map snd (filter fst (zip m2 xs))) \<subseteq> set (map snd (filter fst (zip m1 xs)))"
proof (induction arbitrary: xs rule: list_all2_induct)
  case Nil
  show ?case by simp
next
  case (Cons b1 m1 b2 m2)
  show ?case
  proof (cases xs)
    case Nil
    then show ?thesis by simp
  next
    case (Cons x xs')
    with Cons.IH [of xs'] Cons.hyps(1) show ?thesis by auto
  qed
qed

lemma filtered_df_DataFrame:
  assumes "evs \<noteq> []" and "\<forall>ev \<in> set evs. num_of (mag ev) \<noteq> None"
  shows "filtered_df (DataFrame evs) t =
     Inr \<lparr> columns = [''lat'', ''lon'', ''mag'', ''place'', ''time'', ''radius''],
           index = filter (\<lambda>i. magnitude_at_least t (evs ! i)) [0 ..< length evs],
           data = map row_of (filter (magnitude_at_least t) evs) \<rparr>"
proof -
  have "map (\<lambda>c. ge_cell c t) (map (\<lambda>ev. Val (mag ev)) evs) =
        map (\<lambda>ev. Inr (magnitude_at_least t ev)) evs"
    using assms(2) by (auto simp: magnitude_at_least_def)
  then have m: "series_ge (map (\<lambda>ev. Val (mag ev)) evs) t = Inr (map (magnitude_at_least t) evs)"
    unfolding series_ge_def by (simp only: sequence_err_all_Inr)
  have i: "map snd (filter fst (zip (map (magnitude_at_least t) evs) [0 ..< length evs])) =
        filter (\<lambda>i. magnitude_at_least t (evs ! i)) [0 ..< length evs]"
    using mask_filter_upt [of "magnitude_at_least t" evs 0] by simp
  from assms(1) have c: "columns (DataFrame evs) = [''lat'', ''lon'', ''mag'', ''place'', ''time'', ''radius'']"
    "index (DataFrame evs) = [0 ..< length evs]" "data (DataFrame evs) = map row_of evs"
    by (simp_all add: DataFrame_def)
  show ?thesis
    unfolding filtered_df_def column_DataFrame(3) [OF assms(1)] bind_err_Inr m getitem_mask_def c i
      mask_filter_map
    by (rule refl)
qed



text \<open>
  C1. The claim holds on every collection with at least one event (lemma
  \<open>filter_keeps_exactly\<close>) and fails on the empty one: the frame of an empty collection,
  which is also what \<open>get_earthquake_data\<close> returns after a failure, has no column \<^verbatim>\<open>mag\<close>,
  and line 54 raises \<^verbatim>\<open>KeyError\<close> instead of giving the empty subset.
\<close>

theorem filter_of_empty_collection_raises:
  "get_earthquake_data lib (Response 200 (Some (JObj [(''features'', JArr [])]))) = ([], DataFrame []) \<and>
   get_earthquake_data lib TimedOut = ([StError Timeout], DataFrame []) \<and>
   filtered_df (DataFrame []) min_mag = Inl KeyError"
  by (simp add: get_earthquake_data_def fetch_and_parse_def filtered_df_def column_DataFrame_Nil)

text \<open>
  C10. For thresholds \<open>t1 \<le> t2\<close> and any frame, the filter at \<open>t1\<close> and the filter at \<open>t2\<close>
  either raise the same exception (the threshold plays no part in that), or both return,
  and then every row that the filter at \<open>t2\<close> returns, taken with its label, is a row that
  the filter at \<open>t1\<close> returns.
\<close>

theorem filter_antitone:
  assumes "t1 \<le> t2"
  shows "rel_sum (=)
           (\<lambda>f1 f2. set (zip (index f2) (data f2)) \<subseteq> set (zip (index f1) (data f1)))
           (filtered_df df t1) (filtered_df df t2)"
proof (cases "column df ''mag''")
  case (Inl e)
  then show ?thesis by (simp add: filtered_df_def)
next
  case (Inr s)
  from series_ge_mono [OF assms, of s] show ?thesis
  proof (cases rule: rel_sum.cases)
    case (1 e1 e2)
    with Inr show ?thesis by (simp add: filtered_df_def)
  next
    case (2 m1 m2)
    from mask_subset [OF 2(3), of "zip (index df) (data df)"]
    have "set (zip (index (getitem_mask df m2)) (data (getitem_mask df m2))) \<subseteq>
          set (zip (index (getitem_mask df m1)) (data (getitem_mask df m1)))"
      by (simp only: getitem_mask_def dataframe.simps mask_zip)
    with Inr 2 show ?thesis by (simp add: filtered_df_def)
  qed
qed


text \<open>The theorem at a frame of two events, of magnitudes 5 and 4, and thresholds 3 and 4.5.\<close>

theorem filter_antitone_witness:
  "(3 :: real) \<le> 4.5 \<and>
   filtered_df (DataFrame
     [\<lparr> lat = JNum 20, lon = JNum 10, mag = JNum 5, place = JStr ''A'',
         time = ''1970-01-01 00:00'', radius = Float 30000 \<rparr>,
      \<lparr> lat = JNum 40, lon = JNum 30, mag = JNum 4, place = JStr ''B'',
         time = ''1970-01-01 00:01'', radius = Float 20000 \<rparr>]) 3 =
   Inr \<lparr> columns = [''lat'', ''lon'', ''mag'', ''place'', ''time'', ''radius''],
         index = [0, 1],
         data = [[Val (JNum 20), Val (JNum 10), Val (JNum 5), Val (JStr ''A''),
                  Val (JStr ''1970-01-01 00:00''), Flt (Float 30000)],
                 [Val (JNum 40), Val (JNum 30), Val (JNum 4), Val (JStr ''B''),
                  Val (JStr ''1970-01-01 00:01''), Flt (Float 20000)]] \<rparr> \<and>
   filtered_df (DataFrame
     [\<lparr> lat = JNum 20, lon = JNum 10, mag = JNum 5, place = JStr ''A'',
         time = ''1970-01-01 00:00'', radius = Float 30000 \<rparr>,
      \<lparr> lat = JNum 40, lon = JNum 30, mag = JNum 4, place = JStr ''B'',
         time = ''1970-01-01 00:01'', radius = Float 20000 \<rparr>]) 4.5 =
   Inr \<lparr> columns = [''lat'', ''lon'', ''mag'', ''place'', ''time'', ''radius''],
         index = [0],
         data = [[Val (JNum 20), Val (JNum 10), Val (JNum 5), Val (JStr ''A''),
                  Val (JStr ''1970-01-01 00:00''), Flt (Float 30000)]] \<rparr>"
proof -
  have le: "(3 :: real) \<le> 4.5" by simp
  have f1: "filtered_df (DataFrame
     [\<lparr> lat = JNum 20, lon = JNum 10, mag = JNum 5, place = JStr ''A'',
         time = ''1970-01-01 00:00'', radius = Float 30000 \<rparr>,
      \<lparr> lat = JNum 40, lon = JNum 30, mag = JNum 4, place = JStr ''B'',
         time = ''1970-01-01 00:01'', radius = Float 20000 \<rparr>]) 3 =
   Inr \<lparr> columns = [''lat'', ''lon'', ''mag'', ''place'', ''time'', ''radius''],
         index = [0, 1],
         data = [[Val (JNum 20), Val (JNum 10), Val (JNum 5), Val (JStr ''A''),
                  Val (JStr ''1970-01-01 00:00''), Flt (Float 30000)],
                 [Val (JNum 40), Val (JNum 30), Val (JNum 4), Val (JStr ''B''),
                  Val (JStr ''1970-01-01 00:01''), Flt (Float 20000)]] \<rparr>"
    by (simp add: filtered_df_DataFrame magnitude_at_least_def row_of_def upt_rec)
  have f2: "filtered_df (DataFrame
     [\<lparr> lat = JNum 20, lon = JNum 10, mag = JNum 5, place = JStr ''A'',
         time = ''1970-01-01 00:00'', radius = Float 30000 \<rparr>,
      \<lparr> lat = JNum 40, lon = JNum 30, mag = JNum 4, place = JStr ''B'',
         time = ''1970-01-01 00:01'', radius = Float 20000 \<rparr>]) 4.5 =
   Inr \<lparr> columns = [''lat'', ''lon'', ''mag'', ''place'', ''time'', ''radius''],
         index = [0],
         data = [[Val (JNum 20), Val (JNum 10), Val (JNum 5), Val (JStr ''A''),
                  Val (JStr ''1970-01-01 00:00''), Flt (Float 30000)]] \<rparr>"
    by (simp add: filtered_df_DataFrame magnitude_at_least_def row_of_def upt_rec)
  from filter_antitone [OF le, of "DataFrame
     [\<lparr> lat = JNum 20, lon = JNum 10, mag = JNum 5, place = JStr ''A'',
         time = ''1970-01-01 00:00'', radius = Float 30000 \<rparr>,
      \<lparr> lat = JNum 40, lon = JNum 30, mag = JNum 4, place = JStr ''B'',
         time = ''1970-01-01 00:01'', radius = Float 20000 \<rparr>]"] le f1 f2
  show ?thesis by simp
qed


section \<open>The time strings that are read back\<close>

text \<open>
  The years of the days from 1678-01-01, day \<open>- 106650\<close> of the count, to 2261-12-31, day
  106650.
\<close>

lemma days_to_yearsdays_years:
  assumes "- 106650 \<le> n" and "n \<le> 106650"
  shows "1678 \<le> fst (days_to_yearsdays n) \<and> fst (days_to_yearsdays n) \<le> 2261"
proof -
  define q where "q = (n - (365 * 30 + 7)) div 146097"
  define D where "D = (n - (365 * 30 + 7)) mod 146097"
  define c where "c = (D - 1) div 36524"
  define D1 where "D1 = (D - 1) mod 36524"
  define f where "f = (D1 + 1) div 1461"
  define D2 where "D2 = (D1 + 1) mod 1461"
  define g where "g = (D2 - 1) div 365"
  define D3 where "D3 = (D2 - 1) mod 365"
  have eq: "days_to_yearsdays n =
     (if D \<ge> 366 then
        if D1 \<ge> 365 then
          if D2 \<ge> 366 then (400 * q + 100 * c + 4 * f + g + 2000, D3)
          else (400 * q + 100 * c + 4 * f + 2000, D2)
        else (400 * q + 100 * c + 2000, D1)
      else (400 * q + 2000, D))"
    unfolding days_to_yearsdays_def Let_def q_def D_def c_def D1_def f_def D2_def g_def D3_def
    by (rule refl)
  have D: "0 \<le> D" "D < 146097" "n - 10957 = 146097 * q + D" by (simp_all add: D_def q_def)
  have D1: "0 \<le> D1" "D1 < 36524" "D - 1 = 36524 * c + D1" by (simp_all add: D1_def c_def)
  have D2: "0 \<le> D2" "D2 < 1461" "D1 + 1 = 1461 * f + D2" by (simp_all add: D2_def f_def)
  have D3: "0 \<le> D3" "D3 < 365" "D2 - 1 = 365 * g + D3" by (simp_all add: D3_def g_def)
  have "(- 146097) div 146097 \<le> (n - 10957) div 146097"
    using assms(1) by (intro zdiv_mono1) simp_all
  moreover have "(n - 10957) div 146097 \<le> 95693 div 146097"
    using assms(2) by (intro zdiv_mono1) simp_all
  ultimately have q: "- 1 \<le> q" "q \<le> 0" by (simp_all add: q_def)
  have c: "0 \<le> c" if "1 \<le> D" using that D1 by (simp add: c_def)
  have f: "0 \<le> f" using D1 by (simp add: f_def)
  have g: "0 \<le> g" if "1 \<le> D2" using that by (simp add: g_def)
  have c3: "c \<le> 3"
  proof -
    have "(D - 1) div 36524 \<le> 146095 div 36524" using D by (intro zdiv_mono1) simp_all
    then show ?thesis by (simp add: c_def)
  qed
  have f24: "f \<le> 24"
  proof -
    have "(D1 + 1) div 1461 \<le> 36524 div 1461" using D1 by (intro zdiv_mono1) simp_all
    then show ?thesis by (simp add: f_def)
  qed
  have g3: "g \<le> 3"
  proof -
    have "(D2 - 1) div 365 \<le> 1459 div 365" using D2 by (intro zdiv_mono1) simp_all
    then show ?thesis by (simp add: g_def)
  qed
  consider "q = 0" | "q = - 1" using q by linarith
  then show ?thesis
  proof cases
    case 1
    with D assms have Dn: "D \<le> 95693" by simp
    have c2: "c \<le> 2"
    proof -
      have "(D - 1) div 36524 \<le> 95692 div 36524" using Dn by (intro zdiv_mono1) simp_all
      then show ?thesis by (simp add: c_def)
    qed
    have f15: "f \<le> 15" if "c = 2"
    proof -
      from that D1 Dn have "D1 \<le> 22644" by simp
      then have "(D1 + 1) div 1461 \<le> 22645 div 1461" by (intro zdiv_mono1) simp_all
      then show ?thesis by (simp add: f_def)
    qed
    have g1: "g \<le> 1" if "c = 2" "f = 15"
    proof -
      from that D1 D2 Dn have "D2 \<le> 730" by simp
      then have "(D2 - 1) div 365 \<le> 729 div 365" by (intro zdiv_mono1) simp_all
      then show ?thesis by (simp add: g_def)
    qed
    have up: "100 * c + 4 * f + g \<le> 261"
    proof (cases "c = 2")
      case True
      show ?thesis
      proof (cases "f = 15")
        case True
        with \<open>c = 2\<close> g1 show ?thesis by simp
      next
        case False
        with f15 [OF \<open>c = 2\<close>] have "f \<le> 14" by simp
        with \<open>c = 2\<close> g3 show ?thesis by simp
      qed
    next
      case False
      with c2 have "c \<le> 1" by simp
      with f24 g3 show ?thesis by simp
    qed
    have up': "100 * c + 4 * f \<le> 261" "100 * c \<le> 261"
      using c2 f15 f24 f by (cases "c = 2"; simp)+
    show ?thesis
      unfolding eq using 1 up up' c f g D2 by (auto split: if_splits)
  next
    case 2
    with D assms have Dn: "28490 \<le> D" by simp
    then have c0: "0 \<le> c" using c by simp
    have f19: "19 \<le> f" if "c = 0"
    proof -
      from that D1 Dn have "28489 \<le> D1" by simp
      then have "28490 div 1461 \<le> (D1 + 1) div 1461" by (intro zdiv_mono1) simp_all
      then show ?thesis by (simp add: f_def)
    qed
    have g2: "2 \<le> g" "366 \<le> D2" if "c = 0" "f = 19"
    proof -
      from that D1 D2 Dn have d: "731 \<le> D2" by simp
      then show "366 \<le> D2" by simp
      from d have "730 div 365 \<le> (D2 - 1) div 365" by (intro zdiv_mono1) simp_all
      then show "2 \<le> g" by (simp add: g_def)
    qed
    have d1: "365 \<le> D1" if "c = 0" using that D1 Dn by simp
    show ?thesis
    proof (cases "c = 0")
      case True
      note f19 = f19 [OF True]
      show ?thesis
      proof (cases "f = 19")
        case True
        from g2 [OF \<open>c = 0\<close> True] d1 [OF \<open>c = 0\<close>] Dn g3 show ?thesis
          unfolding eq using 2 \<open>c = 0\<close> True by simp
      next
        case False
        with f19 have "20 \<le> f" by simp
        with d1 [OF \<open>c = 0\<close>] Dn f24 g3 g D2 show ?thesis
          unfolding eq using 2 \<open>c = 0\<close> by (auto split: if_splits)
      qed
    next
      case False
      with c0 have "1 \<le> c" by simp
      with c3 f f24 g g3 D2 Dn show ?thesis
        unfolding eq using 2 by (auto split: if_splits)
    qed
  qed
qed

lemma timestamp_of_ns_year:
  "year (timestamp_of_ns n) = fst (days_to_yearsdays (n div 86400000000000))"
  by (simp add: timestamp_of_ns_def Let_def case_prod_unfold)

text \<open>
  The string that the normalizer writes for a whole number of milliseconds from
  1678-01-01 00:00 to the end of 2261 is one that every version of pandas reads back.
\<close>

lemma whole_ms_minute_string:
  assumes "- 9214560000000 \<le> k" and "k \<le> 9214646399999"
  shows "minute_string (Val (JStr (format_minute (timestamp_of_ns (k * 1000000)))))"
proof -
  define ts where "ts = timestamp_of_ns (k * 1000000)"
  from assms have b: "- 9223372036854775807 \<le> k * 1000000" "k * 1000000 \<le> 9223372036854775807"
    by simp_all
  note f = timestamp_of_ns_fields [OF b, folded ts_def]
  have d: "k * 1000000 div 86400000000000 = k div 86400000"
    using zdiv_zmult2_eq [of 86400000 "k * 1000000" 1000000] by simp
  have "(- 9214560000000) div 86400000 \<le> k div 86400000"
    using assms(1) by (intro zdiv_mono1) simp_all
  moreover have "k div 86400000 \<le> 9214646399999 div 86400000"
    using assms(2) by (intro zdiv_mono1) simp_all
  ultimately have "- 106650 \<le> k div 86400000" "k div 86400000 \<le> 106650" by simp_all
  from days_to_yearsdays_years [OF this] have y: "1678 \<le> year ts" "year ts \<le> 2261"
    by (simp_all add: ts_def timestamp_of_ns_year d)
  have "parse_minute (format_minute ts) =
         Inr \<lparr> year = year ts, month = month ts, day = day ts, hour = hour ts,
               minute = minute ts, second = 0, nanosecond = 0 \<rparr>"
    using f y by (intro parse_minute_format_minute) simp_all
  with y show ?thesis by (simp add: minute_string_def ts_def)
qed

lemma normalized_minute_string:
  assumes "parse_feature lib item = Inr (Some ev)"
    and "getitem item ''properties'' = Inr props"
    and "getitem props ''time'' = Inr (JNum (of_int k))"
    and "- 9214560000000 \<le> k" and "k \<le> 9214646399999"
  shows "minute_string (Val (JStr (time ev)))"
proof -
  from assms(4,5) have w: "whole_ms (of_int k)" by (simp add: whole_ms_def)
  from parse_feature_keptD [OF assms(1)] assms(2,3)
  have "time_string lib (JNum (of_int k)) = Inr (time ev)" by auto
  with w have "time ev = format_minute (timestamp_of_ns (k * 1000000))" by simp
  with whole_ms_minute_string [OF assms(4,5)] show ?thesis by simp
qed


section \<open>The histogram of the hours\<close>








lemma number_nonneg: "number cs acc = Some n \<Longrightarrow> 0 \<le> acc \<Longrightarrow> 0 \<le> n"
proof (induction cs arbitrary: acc)
  case Nil
  then show ?case by simp
next
  case (Cons c cs)
  from Cons.prems(1) obtain d where d: "digit_val c = Some d" "number cs (10 * acc + d) = Some n"
    by (auto split: option.splits)
  from d(1) have "0 \<le> d" by (auto simp: digit_val_def Let_def split: if_splits)
  with Cons.prems(2) have "0 \<le> 10 * acc + d" by simp
  from Cons.IH [OF d(2) this] show ?case .
qed

lemma parse_minute_hour:
  assumes "parse_minute s = Inr ts"
  shows "0 \<le> hour ts" "hour ts \<le> 23"
proof -
  from assms obtain h where h: "number (take 2 (drop 11 s)) 0 = Some h" "hour ts = h" "h < 24"
    by (auto simp: parse_minute_def split: if_splits option.splits)
  from number_nonneg [OF h(1)] h(2,3) show "0 \<le> hour ts" "hour ts \<le> 23" by simp_all
qed

lemma minute_string_read:
  assumes "minute_string (Val (JStr s))"
  shows "\<exists>ts. read_minute (Val (JStr s)) = Ts ts \<and> 0 \<le> hour ts \<and> hour ts \<le> 23"
proof -
  from assms obtain ts where ts: "parse_minute s = Inr ts"
    by (auto simp: minute_string_def split: sum.splits)
  then have "read_minute (Val (JStr s)) = Ts ts" by (simp add: read_minute_def)
  with parse_minute_hour [OF ts] show ?thesis by simp
qed








text \<open>
  The example feed: its events, and the frame that the filter at 4.5 makes of them, with
  the first and the third event.
\<close>

lemmas frame_eval =
  filtered_df_def column_def DataFrame_def row_of_def series_ge_def getitem_mask_def upt_rec
  empty_def setitem_def getitem_columns_def series_max_def

lemmas hours_eval =
  to_datetime_def minute_string_def read_minute_def parse_minute_def digit_val_def
  days_per_month_table_def is_leapyear_def dt_hour_def counts_by_value_def value_counts_def
  sort_index_def

lemmas script_eval =
  script_def program_def line_51_def line_54_def lines_57_63_def lines_66_93_def
  lines_68_91_def line_93_def lines_96_97_def lines_105_120_def with_datetime_def line_106_def
  with_hour_def line_110_def hourly_counts_def lines_113_116_def line_120_def not_empty_def
  df_ref_def filtered_df_ref_def

lemma example_feed_events:
  "fetch_and_parse example_library (Response 200 (Some example_feed)) = Inr example_events"
  by (simp add: example_feed_def example_events_def fetch_eval)





section \<open>The frames of a run\<close>

lemma exec_invariant:
  fixes I :: "session \<Rightarrow> bool"
  assumes step: "\<And>f s s'. P f \<Longrightarrow> I s \<Longrightarrow> f s = Inr s' \<Longrightarrow> I s'"
  shows "every_stmt P x \<Longrightarrow> I s \<Longrightarrow> \<forall>s' \<in> set (fst (exec x s)). I s'"
    and "\<forall>x \<in> set xs. every_stmt P x \<Longrightarrow> I s \<Longrightarrow> \<forall>s' \<in> set (fst (execs xs s)). I s'"
proof (induction x s and xs s rule: exec_execs.induct)
  case (1 f s)
  then show ?case using step [of f s] by (auto split: sum.splits)
next
  case (2 c a b s)
  then show ?case by simp
next
  case (3 s)
  show ?case by simp
next
  case (4 x xs s)
  obtain tr res where x: "exec x s = (tr, res)" by (cases "exec x s")
  from 4(1) 4(3,4) x have tr: "\<forall>s' \<in> set tr. I s'" by simp
  show ?case
  proof (cases res)
    case (Some e)
    with x tr show ?thesis by simp
  next
    case None
    from tr 4(4) have l: "I (last (s # tr))" by (cases tr) simp_all
    from 4(2) [OF x [symmetric] None] 4(3) l
    have "\<forall>s' \<in> set (fst (execs xs (last (s # tr)))). I s'" by simp
    with x None tr show ?thesis by (auto split: prod.splits)
  qed
qed

text \<open>
  What a statement of the script must do to leave the frame of \<^verbatim>\<open>df\<close> as it is: when it
  ends, the store still has the address \<open>df_ref\<close>, with the frame that was there.
\<close>

lemma keeps_df:
  assumes "heap s \<noteq> []"
  shows "line_54 min_mag s = Inr s' \<Longrightarrow> heap s' \<noteq> [] \<and> heap s' ! df_ref = heap s ! df_ref"
    and "lines_57_63 lib min_mag s = Inr s' \<Longrightarrow> heap s' \<noteq> [] \<and> heap s' ! df_ref = heap s ! df_ref"
    and "lines_68_91 s = Inr s' \<Longrightarrow> heap s' \<noteq> [] \<and> heap s' ! df_ref = heap s ! df_ref"
    and "line_93 s = Inr s' \<Longrightarrow> heap s' \<noteq> [] \<and> heap s' ! df_ref = heap s ! df_ref"
    and "lines_96_97 s = Inr s' \<Longrightarrow> heap s' \<noteq> [] \<and> heap s' ! df_ref = heap s ! df_ref"
    and "line_106 lib s = Inr s' \<Longrightarrow> heap s' \<noteq> [] \<and> heap s' ! df_ref = heap s ! df_ref"
    and "line_110 lib s = Inr s' \<Longrightarrow> heap s' \<noteq> [] \<and> heap s' ! df_ref = heap s ! df_ref"
    and "lines_113_116 lib s = Inr s' \<Longrightarrow> heap s' \<noteq> [] \<and> heap s' ! df_ref = heap s ! df_ref"
    and "line_120 s = Inr s' \<Longrightarrow> heap s' \<noteq> [] \<and> heap s' ! df_ref = heap s ! df_ref"
  using assms
  by (auto simp: line_54_def lines_57_63_def lines_68_91_def line_93_def lines_96_97_def
      line_106_def line_110_def lines_113_116_def line_120_def bind_err_eq_Inr Let_def
      df_ref_def filtered_df_ref_def nth_append)

lemma program_keeps_df:
  "\<forall>x \<in> set (program lib min_mag).
     every_stmt (\<lambda>f. \<forall>s s'. heap s \<noteq> [] \<longrightarrow> f s = Inr s' \<longrightarrow>
                         heap s' \<noteq> [] \<and> heap s' ! df_ref = heap s ! df_ref) x"
proof -
  have a: "every_stmt (\<lambda>f. \<forall>s s'. heap s \<noteq> [] \<longrightarrow> f s = Inr s' \<longrightarrow>
                         heap s' \<noteq> [] \<and> heap s' ! df_ref = heap s ! df_ref) (Stmt f)"
    if "\<And>s s'. heap s \<noteq> [] \<Longrightarrow> f s = Inr s' \<Longrightarrow>
                 heap s' \<noteq> [] \<and> heap s' ! df_ref = heap s ! df_ref" for f
    using that by simp
  show ?thesis
    unfolding program_def lines_66_93_def lines_105_120_def
    by (simp only: list.set ball_simps every_stmt.simps(2))
       (intro conjI TrueI; rule a; erule (1) keeps_df)
qed

text \<open>
  C8. In every session of a run, from line 51 on and after each statement that ends, the
  store holds at the address of \<^verbatim>\<open>df\<close> the frame that \<open>get_earthquake_data\<close> returned, with
  its columns, its labels and every cell: the filter puts its frame at another address,
  the table is a frame of its own, and the columns \<^verbatim>\<open>datetime\<close> and \<^verbatim>\<open>hour\<close> are written
  to the frame of \<^verbatim>\<open>filtered_df\<close>.
\<close>

theorem source_collection_unchanged:
  "\<forall>s \<in> set (fst (script lib r min_mag)).
     heap s \<noteq> [] \<and> heap s ! df_ref = snd (get_earthquake_data lib r)"
proof -
  define d where "d = snd (get_earthquake_data lib r)"
  define I where "I s \<longleftrightarrow> heap s \<noteq> [] \<and> heap s ! df_ref = d" for s :: session
  have start: "I (line_51 lib r)"
    by (simp add: I_def d_def line_51_def df_ref_def split: prod.splits)
  have "\<forall>s' \<in> set (fst (execs (program lib min_mag) (line_51 lib r))). I s'"
  proof (rule exec_invariant(2)
      [where I = I and P = "\<lambda>f. \<forall>s s'. heap s \<noteq> [] \<longrightarrow> f s = Inr s' \<longrightarrow>
                         heap s' \<noteq> [] \<and> heap s' ! df_ref = heap s ! df_ref"])
    fix f :: "session \<Rightarrow> error + session" and s s' :: session
    assume "\<forall>s s'. heap s \<noteq> [] \<longrightarrow> f s = Inr s' \<longrightarrow>
                heap s' \<noteq> [] \<and> heap s' ! df_ref = heap s ! df_ref"
      and "I s" and "f s = Inr s'"
    then show "I s'" unfolding I_def by metis
  next
    show "\<forall>x \<in> set (program lib min_mag).
       every_stmt (\<lambda>f. \<forall>s s'. heap s \<noteq> [] \<longrightarrow> f s = Inr s' \<longrightarrow>
                         heap s' \<noteq> [] \<and> heap s' ! df_ref = heap s ! df_ref) x"
      by (rule program_keeps_df)
  next
    show "I (line_51 lib r)" by (rule start)
  qed
  with start have "\<forall>s \<in> set (fst (script lib r min_mag)). I s"
    by (simp add: script_def split: prod.splits)
  then show ?thesis by (simp only: I_def d_def)
qed

text \<open>
  The theorem at the example feed with the threshold 4.5, for the last session of the run:
  the script ends after eight sessions without an exception; the frame of \<^verbatim>\<open>filtered_df\<close>
  has got its two new columns, and the frame of \<^verbatim>\<open>df\<close> is the frame of the three events
  with its six columns.
\<close>

theorem source_collection_unchanged_witness:
  "snd (script example_library (Response 200 (Some example_feed)) 4.5) = None \<and>
   length (fst (script example_library (Response 200 (Some example_feed)) 4.5)) = 8 \<and>
   columns (heap (last (fst (script example_library (Response 200 (Some example_feed)) 4.5))) !
            filtered_df_ref) =
     [''lat'', ''lon'', ''mag'', ''place'', ''time'', ''radius'', ''datetime'', ''hour''] \<and>
   heap (last (fst (script example_library (Response 200 (Some example_feed)) 4.5))) ! df_ref =
     \<lparr> columns = [''lat'', ''lon'', ''mag'', ''place'', ''time'', ''radius''],
       index = [0, 1, 2],
       data = [[Val (JNum 20), Val (JNum 10), Val (JNum 5), Val (JStr ''A''),
                Val (JStr ''1970-01-01 05:00''), Flt (Float 30000)],
               [Val (JNum 40), Val (JNum 30), Val (JNum 4), Val (JStr ''B''),
                Val (JStr ''1970-01-01 00:00''), Flt (Float 20000)],
               [Val (JNum 60), Val (JNum 50), Val (JNum 5), Val (JStr ''C''),
                Val (JStr ''1970-01-01 01:00''), Flt (Float 30000)]] \<rparr>"
proof -
  let ?tr = "fst (script example_library (Response 200 (Some example_feed)) 4.5)"
  have n: "snd (script example_library (Response 200 (Some example_feed)) 4.5) = None"
    by (simp add: script_eval get_earthquake_data_def example_feed_events example_events_def
        frame_eval hours_eval)
  have l: "length ?tr = 8"
    by (simp add: script_eval get_earthquake_data_def example_feed_events example_events_def
        frame_eval hours_eval)
  have c: "columns (heap (last ?tr) ! filtered_df_ref) =
     [''lat'', ''lon'', ''mag'', ''place'', ''time'', ''radius'', ''datetime'', ''hour'']"
    by (simp add: script_eval get_earthquake_data_def example_feed_events example_events_def
        frame_eval hours_eval)
  from l have "?tr \<noteq> []" by auto
  then have "last ?tr \<in> set ?tr" by (rule last_in_set)
  with source_collection_unchanged [of example_library "Response 200 (Some example_feed)" "4.5"]
  have "heap (last ?tr) ! df_ref =
        snd (get_earthquake_data example_library (Response 200 (Some example_feed)))"
    by blast
  also have "\<dots> = \<lparr> columns = [''lat'', ''lon'', ''mag'', ''place'', ''time'', ''radius''],
       index = [0, 1, 2],
       data = [[Val (JNum 20), Val (JNum 10), Val (JNum 5), Val (JStr ''A''),
                Val (JStr ''1970-01-01 05:00''), Flt (Float 30000)],
               [Val (JNum 40), Val (JNum 30), Val (JNum 4), Val (JStr ''B''),
                Val (JStr ''1970-01-01 00:00''), Flt (Float 20000)],
               [Val (JNum 60), Val (JNum 50), Val (JNum 5), Val (JStr ''C''),
                Val (JStr ''1970-01-01 01:00''), Flt (Float 30000)]] \<rparr>"
    by (simp add: get_earthquake_data_def example_feed_events)
       (simp add: example_events_def DataFrame_def row_of_def upt_rec)
  finally show ?thesis using n l c by blast
qed

end
